theory Spec2Isabelle
  imports Complex_Main
begin

section \<open>Numbers, vectors, matrices and boxes\<close>

text \<open>
  The module \<^verbatim>\<open>src/utils/KartCollision.js\<close> computes with JavaScript numbers on
  the vector classes of three.js. Numbers are idealised as \<^typ>\<open>real\<close>: every
  formula is the one the code evaluates, rounding and the non-finite values are left out.
  A \<^verbatim>\<open>Vector3\<close> is its three components.
\<close>

datatype Vector3 = Vector3 (vx: real) (vy: real) (vz: real)

definition Vector3_add :: "Vector3 \<Rightarrow> Vector3 \<Rightarrow> Vector3" where
  "Vector3_add a b = Vector3 (vx a + vx b) (vy a + vy b) (vz a + vz b)"

definition Vector3_sub :: "Vector3 \<Rightarrow> Vector3 \<Rightarrow> Vector3" where
  "Vector3_sub a b = Vector3 (vx a - vx b) (vy a - vy b) (vz a - vz b)"

definition Vector3_addScalar :: "Vector3 \<Rightarrow> real \<Rightarrow> Vector3" where
  "Vector3_addScalar a s = Vector3 (vx a + s) (vy a + s) (vz a + s)"

definition Vector3_multiplyScalar :: "Vector3 \<Rightarrow> real \<Rightarrow> Vector3" where
  "Vector3_multiplyScalar a s = Vector3 (vx a * s) (vy a * s) (vz a * s)"

definition Vector3_divideScalar :: "Vector3 \<Rightarrow> real \<Rightarrow> Vector3" where
  "Vector3_divideScalar a s = Vector3_multiplyScalar a (1 / s)"

definition Vector3_addScaledVector :: "Vector3 \<Rightarrow> Vector3 \<Rightarrow> real \<Rightarrow> Vector3" where
  "Vector3_addScaledVector a v s = Vector3 (vx a + vx v * s) (vy a + vy v * s) (vz a + vz v * s)"

definition Vector3_dot :: "Vector3 \<Rightarrow> Vector3 \<Rightarrow> real" where
  "Vector3_dot a b = vx a * vx b + vy a * vy b + vz a * vz b"

definition Vector3_cross :: "Vector3 \<Rightarrow> Vector3 \<Rightarrow> Vector3" where
  "Vector3_cross a b =
     Vector3 (vy a * vz b - vz a * vy b) (vz a * vx b - vx a * vz b) (vx a * vy b - vy a * vx b)"

definition Vector3_lengthSq :: "Vector3 \<Rightarrow> real" where
  "Vector3_lengthSq a = vx a * vx a + vy a * vy a + vz a * vz a"

definition Vector3_length :: "Vector3 \<Rightarrow> real" where
  "Vector3_length a = sqrt (vx a * vx a + vy a * vy a + vz a * vz a)"

text \<open>\<^verbatim>\<open>normalize()\<close> is \<^verbatim>\<open>divideScalar(this.length() || 1)\<close>: the zero vector stays zero.\<close>

definition Vector3_normalize :: "Vector3 \<Rightarrow> Vector3" where
  "Vector3_normalize a =
     Vector3_divideScalar a (if Vector3_length a = 0 then 1 else Vector3_length a)"

definition Vector3_distanceToSquared :: "Vector3 \<Rightarrow> Vector3 \<Rightarrow> real" where
  "Vector3_distanceToSquared a v =
     (let dx = vx a - vx v; dy = vy a - vy v; dz = vz a - vz v in dx * dx + dy * dy + dz * dz)"

definition Vector3_distanceTo :: "Vector3 \<Rightarrow> Vector3 \<Rightarrow> real" where
  "Vector3_distanceTo a v = sqrt (Vector3_distanceToSquared a v)"

definition Vector3_min :: "Vector3 \<Rightarrow> Vector3 \<Rightarrow> Vector3" where
  "Vector3_min a v = Vector3 (min (vx a) (vx v)) (min (vy a) (vy v)) (min (vz a) (vz v))"

definition Vector3_max :: "Vector3 \<Rightarrow> Vector3 \<Rightarrow> Vector3" where
  "Vector3_max a v = Vector3 (max (vx a) (vx v)) (max (vy a) (vy v)) (max (vz a) (vz v))"

text \<open>
  A \<^verbatim>\<open>Matrix4\<close> is its \<^verbatim>\<open>elements\<close> array, sixteen numbers in column-major order.
\<close>

datatype Matrix4 = Matrix4 (elements: "real list")

definition Matrix4_identity :: Matrix4 where
  "Matrix4_identity = Matrix4 [1, 0, 0, 0,  0, 1, 0, 0,  0, 0, 1, 0,  0, 0, 0, 1]"

text \<open>\<^verbatim>\<open>Vector3.applyMatrix4\<close>: the vector as a point, with the perspective divide.\<close>

definition Vector3_applyMatrix4 :: "Vector3 \<Rightarrow> Matrix4 \<Rightarrow> Vector3" where
  "Vector3_applyMatrix4 a m =
     (let x = vx a; y = vy a; z = vz a; e = elements m;
          w = 1 / (e ! 3 * x + e ! 7 * y + e ! 11 * z + e ! 15)
      in Vector3 ((e ! 0 * x + e ! 4 * y + e ! 8 * z + e ! 12) * w)
                 ((e ! 1 * x + e ! 5 * y + e ! 9 * z + e ! 13) * w)
                 ((e ! 2 * x + e ! 6 * y + e ! 10 * z + e ! 14) * w))"

text \<open>\<^verbatim>\<open>Matrix4.invert\<close>: the cofactor formula, and the zero matrix when the determinant is zero.\<close>

definition Matrix4_invert :: "Matrix4 \<Rightarrow> Matrix4" where
  "Matrix4_invert m =
     (let te = elements m;
          n11 = te ! 0; n21 = te ! 1; n31 = te ! 2; n41 = te ! 3;
          n12 = te ! 4; n22 = te ! 5; n32 = te ! 6; n42 = te ! 7;
          n13 = te ! 8; n23 = te ! 9; n33 = te ! 10; n43 = te ! 11;
          n14 = te ! 12; n24 = te ! 13; n34 = te ! 14; n44 = te ! 15;
          t11 = n23 * n34 * n42 - n24 * n33 * n42 + n24 * n32 * n43
                - n22 * n34 * n43 - n23 * n32 * n44 + n22 * n33 * n44;
          t12 = n14 * n33 * n42 - n13 * n34 * n42 - n14 * n32 * n43
                + n12 * n34 * n43 + n13 * n32 * n44 - n12 * n33 * n44;
          t13 = n13 * n24 * n42 - n14 * n23 * n42 + n14 * n22 * n43
                - n12 * n24 * n43 - n13 * n22 * n44 + n12 * n23 * n44;
          t14 = n14 * n23 * n32 - n13 * n24 * n32 - n14 * n22 * n33
                + n12 * n24 * n33 + n13 * n22 * n34 - n12 * n23 * n34;
          det = n11 * t11 + n21 * t12 + n31 * t13 + n41 * t14
      in if det = 0 then Matrix4 [0, 0, 0, 0,  0, 0, 0, 0,  0, 0, 0, 0,  0, 0, 0, 0]
         else
           (let detInv = 1 / det in
            Matrix4
             [t11 * detInv,
              (n24 * n33 * n41 - n23 * n34 * n41 - n24 * n31 * n43
                + n21 * n34 * n43 + n23 * n31 * n44 - n21 * n33 * n44) * detInv,
              (n22 * n34 * n41 - n24 * n32 * n41 + n24 * n31 * n42
                - n21 * n34 * n42 - n22 * n31 * n44 + n21 * n32 * n44) * detInv,
              (n23 * n32 * n41 - n22 * n33 * n41 - n23 * n31 * n42
                + n21 * n33 * n42 + n22 * n31 * n43 - n21 * n32 * n43) * detInv,
              t12 * detInv,
              (n13 * n34 * n41 - n14 * n33 * n41 + n14 * n31 * n43
                - n11 * n34 * n43 - n13 * n31 * n44 + n11 * n33 * n44) * detInv,
              (n14 * n32 * n41 - n12 * n34 * n41 - n14 * n31 * n42
                + n11 * n34 * n42 + n12 * n31 * n44 - n11 * n32 * n44) * detInv,
              (n12 * n33 * n41 - n13 * n32 * n41 + n13 * n31 * n42
                - n11 * n33 * n42 - n12 * n31 * n43 + n11 * n32 * n43) * detInv,
              t13 * detInv,
              (n14 * n23 * n41 - n13 * n24 * n41 - n14 * n21 * n43
                + n11 * n24 * n43 + n13 * n21 * n44 - n11 * n23 * n44) * detInv,
              (n12 * n24 * n41 - n14 * n22 * n41 + n14 * n21 * n42
                - n11 * n24 * n42 - n12 * n21 * n44 + n11 * n22 * n44) * detInv,
              (n13 * n22 * n41 - n12 * n23 * n41 - n13 * n21 * n42
                + n11 * n23 * n42 + n12 * n21 * n43 - n11 * n22 * n43) * detInv,
              t14 * detInv,
              (n13 * n24 * n31 - n14 * n23 * n31 + n14 * n21 * n33
                - n11 * n24 * n33 - n13 * n21 * n34 + n11 * n23 * n34) * detInv,
              (n14 * n22 * n31 - n12 * n24 * n31 - n14 * n21 * n32
                + n11 * n24 * n32 + n12 * n21 * n34 - n11 * n22 * n34) * detInv,
              (n12 * n23 * n31 - n13 * n22 * n31 + n13 * n21 * n32
                - n11 * n23 * n32 - n12 * n21 * n33 + n11 * n22 * n33) * detInv]))"

text \<open>
  A \<^verbatim>\<open>Line3\<close> is a segment from \<open>start\<close> to \<open>end\<close>. A \<^verbatim>\<open>Box3\<close> is a pair of corners;
  the box after \<^verbatim>\<open>makeEmpty()\<close>, whose corners three.js sets to plus and minus infinity,
  is a value of its own.
\<close>

datatype Line3 = Line3 (lstart: Vector3) (lend: Vector3)

datatype Box3 = EmptyBox | Box3 Vector3 Vector3

definition Box3_makeEmpty :: "Box3 \<Rightarrow> Box3" where
  "Box3_makeEmpty b = EmptyBox"

fun Box3_expandByPoint :: "Box3 \<Rightarrow> Vector3 \<Rightarrow> Box3" where
  "Box3_expandByPoint EmptyBox p = Box3 p p"
| "Box3_expandByPoint (Box3 mn mx) p = Box3 (Vector3_min mn p) (Vector3_max mx p)"

text \<open>\<^verbatim>\<open>tempBox.min.addScalar(-r); tempBox.max.addScalar(r)\<close>.\<close>

fun Box3_grow :: "Box3 \<Rightarrow> real \<Rightarrow> Box3" where
  "Box3_grow EmptyBox r = EmptyBox"
| "Box3_grow (Box3 mn mx) r = Box3 (Vector3_addScalar mn (- r)) (Vector3_addScalar mx r)"

definition Box3_setFromCenterAndSize :: "Vector3 \<Rightarrow> Vector3 \<Rightarrow> Box3" where
  "Box3_setFromCenterAndSize center sz =
     (let halfSize = Vector3_multiplyScalar sz (1 / 2)
      in Box3 (Vector3_sub center halfSize) (Vector3_add center halfSize))"

fun Box3_intersectsBox :: "Box3 \<Rightarrow> Box3 \<Rightarrow> bool" where
  "Box3_intersectsBox (Box3 tmin tmax) (Box3 bmin bmax) =
     (vx bmax \<ge> vx tmin \<and> vx bmin \<le> vx tmax \<and>
      vy bmax \<ge> vy tmin \<and> vy bmin \<le> vy tmax \<and>
      vz bmax \<ge> vz tmin \<and> vz bmin \<le> vz tmax)"
| "Box3_intersectsBox _ _ = False"

section \<open>Triangles and the bounding volume hierarchy\<close>

datatype Triangle = Triangle (ta: Vector3) (tb: Vector3) (tc: Vector3)

text \<open>\<^verbatim>\<open>Triangle.getNormal\<close>: the unit normal, or the zero vector of a degenerate triangle.\<close>

definition Triangle_getNormal :: "Triangle \<Rightarrow> Vector3" where
  "Triangle_getNormal t =
     (let target = Vector3_cross (Vector3_sub (tc t) (tb t)) (Vector3_sub (ta t) (tb t));
          targetLengthSq = Vector3_lengthSq target
      in if targetLengthSq > 0 then Vector3_multiplyScalar target (1 / sqrt targetLengthSq)
         else Vector3 0 0 0)"

definition Triangle_getMidpoint :: "Triangle \<Rightarrow> Vector3" where
  "Triangle_getMidpoint t =
     Vector3_multiplyScalar (Vector3_add (Vector3_add (ta t) (tb t)) (tc t)) (1 / 3)"

text \<open>
  \<^verbatim>\<open>ExtendedTriangle.closestPointToSegment(segment, target1, target2)\<close> of three-mesh-bvh
  returns the distance and writes the closest point of the triangle to \<open>target1\<close> and the
  closest point of the segment to \<open>target2\<close>. The library is not part of the module:
  the function is a parameter of this type wherever the module calls it.
\<close>

type_synonym closestPointToSegment = "Triangle \<Rightarrow> Line3 \<Rightarrow> real \<times> Vector3 \<times> Vector3"

datatype MeshBVH = BVHLeaf Box3 "Triangle list" | BVHNode Box3 MeshBVH MeshBVH

text \<open>
  Modelled from the spec: \<^verbatim>\<open>MeshBVH.shapecast\<close> of three-mesh-bvh, which the module calls
  and does not define. The traversal is depth-first; a subtree whose box fails
  \<open>intersectsBounds\<close> is pruned, and \<open>intersectsTriangle\<close> is called on every triangle of a
  leaf that is reached, in order, each call seeing the state the calls before it left.
  The callbacks of the module return nothing, so the traversal never stops early.
\<close>

fun shapecast :: "(Box3 \<Rightarrow> bool) \<Rightarrow> (Triangle \<Rightarrow> 's \<Rightarrow> 's) \<Rightarrow> MeshBVH \<Rightarrow> 's \<Rightarrow> 's" where
  "shapecast intersectsBounds intersectsTriangle (BVHLeaf box tris) s =
     (if intersectsBounds box then fold intersectsTriangle tris s else s)"
| "shapecast intersectsBounds intersectsTriangle (BVHNode box l r) s =
     (if intersectsBounds box
      then shapecast intersectsBounds intersectsTriangle r
             (shapecast intersectsBounds intersectsTriangle l s)
      else s)"

record BufferGeometry =
  positions :: "Triangle list"
  boundsTree :: "MeshBVH option"

record Mesh =
  matrixWorld :: Matrix4
  geometry :: BufferGeometry
  visible :: bool

section \<open>The capsule resolver\<close>

record settings =
  radius :: real
  height :: real
  pushOutMultiplier :: real

text \<open>
  The settings a call of \<^verbatim>\<open>checkCollision\<close> gets when it passes none. The radius a call of
  \<^verbatim>\<open>checkSimpleCollision\<close> gets when it passes none is \<open>1\<close>.
\<close>

definition kartColliderSettings :: settings where
  "kartColliderSettings = \<lparr>radius = 8 / 10, height = 1, pushOutMultiplier = 1\<rparr>"

record result =
  position :: Vector3
  collided :: bool

record simple_result = result +
  velocity :: Vector3

text \<open>
  The triangle callback of \<^verbatim>\<open>checkCollision\<close>. Its state is what it mutates: the scratch
  segment \<^verbatim>\<open>tempSegment\<close> and \<^verbatim>\<open>result.collided\<close>.
\<close>

definition capsule_intersectsTriangle ::
  "closestPointToSegment \<Rightarrow> settings \<Rightarrow> Triangle \<Rightarrow> Line3 \<times> bool \<Rightarrow> Line3 \<times> bool" where
  "capsule_intersectsTriangle cps st tri s =
     (let tempSegment = fst s;
          (distance, triPoint, capsulePoint) = cps tri tempSegment
      in if distance < radius st then
           (let depth = radius st - distance;
                direction = Vector3_normalize (Vector3_sub capsulePoint triPoint)
            in (Line3 (Vector3_addScaledVector (lstart tempSegment) direction
                         (depth * pushOutMultiplier st))
                      (Vector3_addScaledVector (lend tempSegment) direction
                         (depth * pushOutMultiplier st)),
                True))
         else s)"

text \<open>The segment of the capsule at the desired position, in the collider's local space.\<close>

definition capsule_segment :: "Vector3 \<Rightarrow> Mesh \<Rightarrow> settings \<Rightarrow> Line3" where
  "capsule_segment desiredPosition collider st =
     (let tempMat = Matrix4_invert (matrixWorld collider)
      in Line3 (Vector3_applyMatrix4
                  (Vector3_add (Vector3 0 (radius st) 0) desiredPosition) tempMat)
               (Vector3_applyMatrix4
                  (Vector3_add (Vector3 0 (height st) 0) desiredPosition) tempMat))"

text \<open>The broad-phase box around a segment.\<close>

definition capsule_box :: "Line3 \<Rightarrow> settings \<Rightarrow> Box3" where
  "capsule_box tempSegment st =
     Box3_grow
       (Box3_expandByPoint (Box3_expandByPoint (Box3_makeEmpty EmptyBox) (lstart tempSegment))
          (lend tempSegment))
       (radius st)"

text \<open>
  What \<^verbatim>\<open>checkCollision\<close> does after the traversal: on a collision the start of the
  segment goes back to world space and gives \<open>x\<close> and \<open>z\<close>; \<open>y\<close> is not assigned.
\<close>

definition checkCollision_result :: "Vector3 \<Rightarrow> Mesh \<Rightarrow> Line3 \<times> bool \<Rightarrow> result" where
  "checkCollision_result desiredPosition c s =
     (if snd s then
        (let newPosition = Vector3_applyMatrix4 (lstart (fst s)) (matrixWorld c)
         in \<lparr>position = Vector3 (vx newPosition) (vy desiredPosition) (vz newPosition),
             collided = True\<rparr>)
      else \<lparr>position = desiredPosition, collided = False\<rparr>)"

definition checkCollision ::
  "closestPointToSegment \<Rightarrow> Vector3 \<Rightarrow> Vector3 \<Rightarrow> Mesh option \<Rightarrow> settings \<Rightarrow> result" where
  "checkCollision cps currentPosition desiredPosition collider st =
     (case collider of
        None \<Rightarrow> \<lparr>position = desiredPosition, collided = False\<rparr>
      | Some c \<Rightarrow>
         (case boundsTree (geometry c) of
            None \<Rightarrow> \<lparr>position = desiredPosition, collided = False\<rparr>
          | Some bvh \<Rightarrow>
             (let tempSegment = capsule_segment desiredPosition c st;
                  tempBox = capsule_box tempSegment st
              in checkCollision_result desiredPosition c
                   (shapecast (\<lambda>box. Box3_intersectsBox box tempBox)
                      (capsule_intersectsTriangle cps st) bvh (tempSegment, False)))))"

section \<open>The simple resolver\<close>

text \<open>
  The triangle callback of \<^verbatim>\<open>checkSimpleCollision\<close>. Its state is \<^verbatim>\<open>result.velocity\<close> and
  \<^verbatim>\<open>result.collided\<close>. The first argument of \<^verbatim>\<open>addScaledVector\<close> transforms and
  normalizes \<open>normal\<close> in place before the second argument reads it.
\<close>

definition simple_intersectsTriangle ::
  "Matrix4 \<Rightarrow> Vector3 \<Rightarrow> real \<Rightarrow> Triangle \<Rightarrow> Vector3 \<times> bool \<Rightarrow> Vector3 \<times> bool" where
  "simple_intersectsTriangle mw localPos r tri s =
     (let normal = Triangle_getNormal tri;
          triCenter = Triangle_getMidpoint tri;
          distToTri = Vector3_distanceTo localPos triCenter
      in if distToTri < r * 2 then
           (let normal' = Vector3_normalize (Vector3_applyMatrix4 normal mw)
            in (Vector3_addScaledVector (fst s) normal'
                  (- Vector3_dot (fst s) normal' * (11 / 10)),
                True))
         else s)"

definition checkSimpleCollision ::
  "Vector3 \<Rightarrow> Vector3 \<Rightarrow> Mesh option \<Rightarrow> real \<Rightarrow> simple_result" where
  "checkSimpleCollision pos vel collider r =
     (case collider of
        None \<Rightarrow> \<lparr>position = Vector3_add pos vel, collided = False, velocity = vel\<rparr>
      | Some c \<Rightarrow>
         (case boundsTree (geometry c) of
            None \<Rightarrow> \<lparr>position = Vector3_add pos vel, collided = False, velocity = vel\<rparr>
          | Some bvh \<Rightarrow>
             (let newPosition = Vector3_add pos vel;
                  tempMat = Matrix4_invert (matrixWorld c);
                  localPos = Vector3_applyMatrix4 newPosition tempMat;
                  tempBox = Box3_setFromCenterAndSize localPos (Vector3 (r * 2) (r * 2) (r * 2));
                  (v, hit) =
                     shapecast (\<lambda>box. Box3_intersectsBox box tempBox)
                       (simple_intersectsTriangle (matrixWorld c) localPos r) bvh (vel, False)
              in \<lparr>position = Vector3_add pos v, collided = hit, velocity = v\<rparr>)))"

section \<open>The collider factory\<close>

text \<open>
  A JavaScript string is its sequence of UTF-16 code units, each a number; \<open>js\<close> writes
  one out from an ASCII literal.
\<close>

type_synonym jsstring = "nat list"

definition js :: "string \<Rightarrow> jsstring" where
  "js s = map of_char s"

text \<open>
  A scene object has a name, the flag \<^verbatim>\<open>isMesh\<close>, what a mesh carries, and its children.
  \<^verbatim>\<open>Object3D.traverse\<close> calls the callback on the object and then traverses each child.
\<close>

datatype Object3D =
  Object3D (name: jsstring) (isMesh: bool) (mesh: Mesh) (children: "Object3D list")

fun Object3D_traverse :: "(Object3D \<Rightarrow> 's \<Rightarrow> 's) \<Rightarrow> Object3D \<Rightarrow> 's \<Rightarrow> 's" where
  "Object3D_traverse callback (Object3D n m g cs) s =
     fold (Object3D_traverse callback) cs (callback (Object3D n m g cs) s)"

text \<open>
  \<^verbatim>\<open>String.prototype.toLowerCase\<close> is the engine's: it folds every cased letter of
  Unicode, not A to Z alone. The functions that call it take it as the parameter
  \<open>toLowerCase\<close>.
\<close>

text \<open>\<^verbatim>\<open>s.includes(t)\<close>: \<open>t\<close> occurs in \<open>s\<close> as a contiguous substring.\<close>

fun is_prefix :: "jsstring \<Rightarrow> jsstring \<Rightarrow> bool" where
  "is_prefix [] s = True"
| "is_prefix (c # t) [] = False"
| "is_prefix (c # t) (d # s) = (c = d \<and> is_prefix t s)"

fun String_includes :: "jsstring \<Rightarrow> jsstring \<Rightarrow> bool" where
  "String_includes [] t = is_prefix t []"
| "String_includes (c # s) t = (is_prefix t (c # s) \<or> String_includes s t)"

datatype console = Warn string | Log string

function string_of_nat :: "nat \<Rightarrow> string" where
  "string_of_nat n =
     (if n < 10 then [''0123456789'' ! n]
      else string_of_nat (n div 10) @ [''0123456789'' ! (n mod 10)])"
  by pat_completeness auto
termination
  by (relation "measure id") auto

declare string_of_nat.simps [simp del]

text \<open>The callback that \<^verbatim>\<open>buildCollider\<close> passes to \<^verbatim>\<open>group.traverse\<close>; its state is \<open>meshes\<close>.\<close>

definition buildCollider_visit ::
  "(jsstring \<Rightarrow> jsstring) \<Rightarrow> jsstring list \<Rightarrow> jsstring list \<Rightarrow> Object3D \<Rightarrow> Object3D list
     \<Rightarrow> Object3D list" where
  "buildCollider_visit toLowerCase includeNames excludeNames child meshes =
     (if \<not> isMesh child then meshes
      else
        let isExcluded =
              list_ex (\<lambda>n. String_includes (toLowerCase (name child)) (toLowerCase n)) excludeNames
        in if isExcluded then meshes
           else if length includeNames > 0 \<and>
                   \<not> list_ex (\<lambda>n. String_includes (toLowerCase (name child)) (toLowerCase n)) includeNames
                then meshes
                else meshes @ [child])"

text \<open>
  \<^verbatim>\<open>StaticGeometryGenerator.generate\<close> and the \<^verbatim>\<open>MeshBVH\<close> constructor belong to
  three-mesh-bvh; both are parameters. What follows the empty check is the same in both
  factories but for the list it is given.
\<close>

definition assemble ::
  "(Object3D list \<Rightarrow> BufferGeometry) \<Rightarrow> (BufferGeometry \<Rightarrow> MeshBVH) \<Rightarrow> Object3D list
     \<Rightarrow> Mesh option \<times> console list" where
  "assemble generate newMeshBVH meshes =
     (let mergedGeometry = generate meshes;
          mergedGeometry' = mergedGeometry\<lparr>boundsTree := Some (newMeshBVH mergedGeometry)\<rparr>;
          collider = \<lparr>matrixWorld = Matrix4_identity, geometry = mergedGeometry', visible = False\<rparr>
      in (Some collider,
          [Log (''KartCollision: Built collider from '' @ string_of_nat (length meshes)
                @ '' meshes'')]))"

text \<open>An argument left out takes the default: no include names, and \<open>ground\<close> excluded.\<close>

definition buildCollider_meshes ::
  "(jsstring \<Rightarrow> jsstring) \<Rightarrow> Object3D \<Rightarrow> jsstring list option \<Rightarrow> jsstring list option
     \<Rightarrow> Object3D list" where
  "buildCollider_meshes toLowerCase grp includeNames excludeNames =
     Object3D_traverse
       (buildCollider_visit toLowerCase (case includeNames of None \<Rightarrow> [] | Some l \<Rightarrow> l)
          (case excludeNames of None \<Rightarrow> [js ''ground''] | Some l \<Rightarrow> l))
       grp []"

definition buildCollider ::
  "(Object3D list \<Rightarrow> BufferGeometry) \<Rightarrow> (BufferGeometry \<Rightarrow> MeshBVH) \<Rightarrow> (jsstring \<Rightarrow> jsstring)
     \<Rightarrow> Object3D \<Rightarrow> jsstring list option \<Rightarrow> jsstring list option
     \<Rightarrow> Mesh option \<times> console list" where
  "buildCollider generate newMeshBVH toLowerCase grp includeNames excludeNames =
     (let meshes = buildCollider_meshes toLowerCase grp includeNames excludeNames
      in if length meshes = 0
         then (None, [Warn ''KartCollision: No meshes found for collision''])
         else assemble generate newMeshBVH meshes)"

text \<open>The argument of \<^verbatim>\<open>buildColliderFromMeshes\<close> may be \<^verbatim>\<open>null\<close> or \<^verbatim>\<open>undefined\<close>: \<open>None\<close>.\<close>

definition buildColliderFromMeshes ::
  "(Object3D list \<Rightarrow> BufferGeometry) \<Rightarrow> (BufferGeometry \<Rightarrow> MeshBVH) \<Rightarrow> Object3D list option
     \<Rightarrow> Mesh option \<times> console list" where
  "buildColliderFromMeshes generate newMeshBVH meshes =
     (case meshes of
        None \<Rightarrow> (None, [Warn ''KartCollision: No meshes provided''])
      | Some ms \<Rightarrow>
          if length ms = 0 then (None, [Warn ''KartCollision: No meshes provided''])
          else assemble generate newMeshBVH ms)"

section \<open>The resolvers on a store\<close>

text \<open>
  The resolvers again, on a store, to settle which objects a call writes and which it
  returns. A \<^verbatim>\<open>Vector3\<close> or \<^verbatim>\<open>Matrix4\<close> object is an address; the store gives the value
  each address holds and the next address \<^verbatim>\<open>new\<close> and \<^verbatim>\<open>clone()\<close> hand out. The module's
  scratch objects, created when it is loaded and not exported, are the first addresses:
  \<^verbatim>\<open>tempVector\<close>, \<^verbatim>\<open>tempVector2\<close>, the two ends of \<^verbatim>\<open>tempSegment\<close>, and \<^verbatim>\<open>tempMat\<close>. The corners
  of \<^verbatim>\<open>tempBox\<close> are reached through the box alone, which is kept as a value.
\<close>

record store =
  vectors :: "nat \<Rightarrow> Vector3"
  next_vector :: nat
  matrices :: "nat \<Rightarrow> Matrix4"
  tempBox :: Box3

definition tempVector :: nat where "tempVector = 0"
definition tempVector2 :: nat where "tempVector2 = 1"
definition tempSegment_start :: nat where "tempSegment_start = 2"
definition tempSegment_end :: nat where "tempSegment_end = 3"
definition tempMat :: nat where "tempMat = 0"

text \<open>
  The methods of \<^verbatim>\<open>Vector3\<close> and \<^verbatim>\<open>Matrix4\<close> the module calls. Each mutates its receiver;
  \<^verbatim>\<open>clone\<close> and \<^verbatim>\<open>new\<close> allocate.
\<close>

definition v_write :: "nat \<Rightarrow> Vector3 \<Rightarrow> store \<Rightarrow> store" where
  "v_write a v s = s\<lparr>vectors := (vectors s)(a := v)\<rparr>"

definition v_new :: "Vector3 \<Rightarrow> store \<Rightarrow> nat \<times> store" where
  "v_new v s =
     (next_vector s,
      s\<lparr>vectors := (vectors s)(next_vector s := v), next_vector := Suc (next_vector s)\<rparr>)"

definition h_clone :: "nat \<Rightarrow> store \<Rightarrow> nat \<times> store" where
  "h_clone a s = v_new (vectors s a) s"

definition h_copy :: "nat \<Rightarrow> nat \<Rightarrow> store \<Rightarrow> store" where
  "h_copy a v s = v_write a (vectors s v) s"

definition h_add :: "nat \<Rightarrow> nat \<Rightarrow> store \<Rightarrow> store" where
  "h_add a v s = v_write a (Vector3_add (vectors s a) (vectors s v)) s"

definition h_sub :: "nat \<Rightarrow> nat \<Rightarrow> store \<Rightarrow> store" where
  "h_sub a v s = v_write a (Vector3_sub (vectors s a) (vectors s v)) s"

definition h_normalize :: "nat \<Rightarrow> store \<Rightarrow> store" where
  "h_normalize a s = v_write a (Vector3_normalize (vectors s a)) s"

definition h_applyMatrix4 :: "nat \<Rightarrow> nat \<Rightarrow> store \<Rightarrow> store" where
  "h_applyMatrix4 a m s = v_write a (Vector3_applyMatrix4 (vectors s a) (matrices s m)) s"

definition h_addScaledVector :: "nat \<Rightarrow> nat \<Rightarrow> real \<Rightarrow> store \<Rightarrow> store" where
  "h_addScaledVector a v k s =
     v_write a (Vector3_addScaledVector (vectors s a) (vectors s v) k) s"

definition h_copy_invert :: "nat \<Rightarrow> nat \<Rightarrow> store \<Rightarrow> store" where
  "h_copy_invert m src s = s\<lparr>matrices := (matrices s)(m := Matrix4_invert (matrices s src))\<rparr>"

text \<open>
  A collider as the module sees it: the address of its \<^verbatim>\<open>matrixWorld\<close>, and its geometry,
  of which the module reads \<^verbatim>\<open>boundsTree\<close> and calls \<^verbatim>\<open>shapecast\<close>, and nothing else.
\<close>

record Mesh_ref =
  matrixWorld_at :: nat
  geometry_of :: BufferGeometry

text \<open>
  \<^verbatim>\<open>closestPointToSegment\<close> reads the segment and writes its two targets.
\<close>

definition h_closestPointToSegment ::
  "closestPointToSegment \<Rightarrow> Triangle \<Rightarrow> nat \<Rightarrow> nat \<Rightarrow> store \<Rightarrow> real \<times> store" where
  "h_closestPointToSegment cps tri target1 target2 s =
     (let (distance, triPoint, capsulePoint) =
            cps tri (Line3 (vectors s tempSegment_start) (vectors s tempSegment_end))
      in (distance, v_write target2 capsulePoint (v_write target1 triPoint s)))"

definition h_capsule_intersectsTriangle ::
  "closestPointToSegment \<Rightarrow> settings \<Rightarrow> Triangle \<Rightarrow> store \<times> bool \<Rightarrow> store \<times> bool" where
  "h_capsule_intersectsTriangle cps st tri sh =
     (let triPoint = tempVector;
          capsulePoint = tempVector2;
          (distance, s1) = h_closestPointToSegment cps tri triPoint capsulePoint (fst sh)
      in if distance < radius st then
           (let depth = radius st - distance;
                s2 = h_normalize capsulePoint (h_sub capsulePoint triPoint s1);
                direction = capsulePoint;
                s3 = h_addScaledVector tempSegment_start direction
                       (depth * pushOutMultiplier st) s2;
                s4 = h_addScaledVector tempSegment_end direction
                       (depth * pushOutMultiplier st) s3
            in (s4, True))
         else (s1, snd sh))"

text \<open>
  \<^verbatim>\<open>checkCollision\<close> in three parts: what precedes the traversal (the capsule, \<^verbatim>\<open>tempMat\<close>,
  \<^verbatim>\<open>tempSegment\<close>, \<^verbatim>\<open>tempBox\<close>), the traversal, and \<^verbatim>\<open>if (result.collided) ...\<close>. The function
  returns the address of \<^verbatim>\<open>result.position\<close>, the flag, and the store it leaves.
\<close>

definition h_capsule_prepare :: "nat \<Rightarrow> Mesh_ref \<Rightarrow> settings \<Rightarrow> store \<Rightarrow> store" where
  "h_capsule_prepare desiredPosition c st s =
     (let (a, s2) = v_new (Vector3 0 (radius st) 0) s;
          (b, s3) = v_new (Vector3 0 (height st) 0) s2;
          s4 = h_copy_invert tempMat (matrixWorld_at c) s3;
          s5 = h_copy tempSegment_end b (h_copy tempSegment_start a s4);
          s6 = h_applyMatrix4 tempSegment_start tempMat
                 (h_add tempSegment_start desiredPosition s5);
          s7 = h_applyMatrix4 tempSegment_end tempMat
                 (h_add tempSegment_end desiredPosition s6)
      in s7\<lparr>tempBox :=
                Box3_grow
                  (Box3_expandByPoint
                     (Box3_expandByPoint (Box3_makeEmpty (tempBox s7))
                        (vectors s7 tempSegment_start))
                     (vectors s7 tempSegment_end))
                  (radius st)\<rparr>)"

definition h_checkCollision_result :: "nat \<Rightarrow> Mesh_ref \<Rightarrow> store \<times> bool \<Rightarrow> store" where
  "h_checkCollision_result rp c x =
     (if snd x then
        (let (newPosition, s10) = h_clone tempSegment_start (fst x);
             s11 = h_applyMatrix4 newPosition (matrixWorld_at c) s10
         in v_write rp
              (Vector3 (vx (vectors s11 newPosition)) (vy (vectors s11 rp))
                 (vz (vectors s11 newPosition))) s11)
      else fst x)"

definition h_checkCollision ::
  "closestPointToSegment \<Rightarrow> nat \<Rightarrow> nat \<Rightarrow> Mesh_ref option \<Rightarrow> settings \<Rightarrow> store
     \<Rightarrow> (nat \<times> bool) \<times> store" where
  "h_checkCollision cps currentPosition desiredPosition collider st s =
     (case collider of
        None \<Rightarrow> (let (rp, s1) = h_clone desiredPosition s in ((rp, False), s1))
      | Some c \<Rightarrow>
         (case boundsTree (geometry_of c) of
            None \<Rightarrow> (let (rp, s1) = h_clone desiredPosition s in ((rp, False), s1))
          | Some bvh \<Rightarrow>
             (let (rp, s1) = h_clone desiredPosition s;
                  s8 = h_capsule_prepare desiredPosition c st s1;
                  x = shapecast (\<lambda>box. Box3_intersectsBox box (tempBox s8))
                        (h_capsule_intersectsTriangle cps st) bvh (s8, False)
              in ((rp, snd x), h_checkCollision_result rp c x))))"

text \<open>
  \<^verbatim>\<open>checkSimpleCollision\<close> likewise; it returns the addresses of \<^verbatim>\<open>result.position\<close> and
  \<^verbatim>\<open>result.velocity\<close> and the flag.
\<close>

definition h_simple_intersectsTriangle ::
  "nat \<Rightarrow> nat \<Rightarrow> nat \<Rightarrow> real \<Rightarrow> Triangle \<Rightarrow> store \<times> bool \<Rightarrow> store \<times> bool" where
  "h_simple_intersectsTriangle mw localPos rv r tri sh =
     (let normal = tempVector;
          s1 = v_write normal (Triangle_getNormal tri) (fst sh);
          triCenter = tempVector2;
          s2 = v_write triCenter (Triangle_getMidpoint tri) s1;
          distToTri = Vector3_distanceTo (vectors s2 localPos) (vectors s2 triCenter)
      in if distToTri < r * 2 then
           (let s3 = h_normalize normal (h_applyMatrix4 normal mw s2);
                s4 = h_addScaledVector rv normal
                       (- Vector3_dot (vectors s3 rv) (vectors s3 normal) * (11 / 10)) s3
            in (s4, True))
         else (s2, snd sh))"

definition h_simple_prepare :: "nat \<Rightarrow> nat \<Rightarrow> Mesh_ref \<Rightarrow> real \<Rightarrow> store \<Rightarrow> nat \<times> store" where
  "h_simple_prepare pos vel c r s =
     (let (newPosition, s3) = h_clone pos s;
          s4 = h_add newPosition vel s3;
          s5 = h_copy_invert tempMat (matrixWorld_at c) s4;
          (localPos, s6) = h_clone newPosition s5;
          s7 = h_applyMatrix4 localPos tempMat s6;
          (sz, s8) = v_new (Vector3 (r * 2) (r * 2) (r * 2)) s7
      in (localPos,
          s8\<lparr>tempBox := Box3_setFromCenterAndSize (vectors s8 localPos) (vectors s8 sz)\<rparr>))"

definition h_checkSimpleCollision ::
  "nat \<Rightarrow> nat \<Rightarrow> Mesh_ref option \<Rightarrow> real \<Rightarrow> store \<Rightarrow> (nat \<times> nat \<times> bool) \<times> store" where
  "h_checkSimpleCollision pos vel collider r s =
     (let early = (let (rp, s1) = h_clone pos s;
                       s2 = h_add rp vel s1;
                       (rv, s3) = h_clone vel s2
                   in ((rp, rv, False), s3))
      in case collider of
           None \<Rightarrow> early
         | Some c \<Rightarrow>
            (case boundsTree (geometry_of c) of
               None \<Rightarrow> early
             | Some bvh \<Rightarrow>
                (let (rp, s1) = h_clone pos s;
                     (rv, s2) = h_clone vel s1;
                     (localPos, s9) = h_simple_prepare pos vel c r s2;
                     x = shapecast (\<lambda>box. Box3_intersectsBox box (tempBox s9))
                           (h_simple_intersectsTriangle (matrixWorld_at c) localPos rv r) bvh
                           (s9, False)
                 in ((rp, rv, snd x), h_add rp rv (fst x)))))"

text \<open>
  What a traversal may change: \<open>scratch_only\<close> allows the scratch vectors alone,
  \<open>scratch_and rv\<close> one more address. \<open>segment_of\<close> reads \<^verbatim>\<open>tempSegment\<close> off the store and
  \<open>mesh_of\<close> the collider, for comparing the store with the values.
\<close>

definition scratch_only :: "store \<Rightarrow> store \<Rightarrow> bool" where
  "scratch_only s0 s =
     (next_vector s = next_vector s0 \<and> (\<forall>a. 4 \<le> a \<longrightarrow> vectors s a = vectors s0 a) \<and>
      matrices s = matrices s0 \<and> tempBox s = tempBox s0)"

definition scratch_and :: "nat \<Rightarrow> store \<Rightarrow> store \<Rightarrow> bool" where
  "scratch_and rv s0 s =
     (next_vector s = next_vector s0 \<and>
      (\<forall>a. 4 \<le> a \<and> a \<noteq> rv \<longrightarrow> vectors s a = vectors s0 a) \<and>
      matrices s = matrices s0 \<and> tempBox s = tempBox s0)"

definition segment_of :: "store \<Rightarrow> Line3" where
  "segment_of s = Line3 (vectors s tempSegment_start) (vectors s tempSegment_end)"

definition mesh_of :: "store \<Rightarrow> Mesh_ref \<Rightarrow> Mesh" where
  "mesh_of s c =
     \<lparr>matrixWorld = matrices s (matrixWorld_at c), geometry = geometry_of c, visible = False\<rparr>"

section \<open>Notions the claims are stated with\<close>

text \<open>
  The triangles a traversal visits, in order, and the boxes of the leaves. Both are read
  off \<open>shapecast\<close>: the bounds test of either resolver does not depend on the state.
\<close>

fun shapecast_visits :: "(Box3 \<Rightarrow> bool) \<Rightarrow> MeshBVH \<Rightarrow> Triangle list" where
  "shapecast_visits intersectsBounds (BVHLeaf box tris) =
     (if intersectsBounds box then tris else [])"
| "shapecast_visits intersectsBounds (BVHNode box l r) =
     (if intersectsBounds box
      then shapecast_visits intersectsBounds l @ shapecast_visits intersectsBounds r
      else [])"

fun leaf_boxes :: "MeshBVH \<Rightarrow> Box3 list" where
  "leaf_boxes (BVHLeaf box tris) = [box]"
| "leaf_boxes (BVHNode box l r) = leaf_boxes l @ leaf_boxes r"

definition translate :: "Line3 \<Rightarrow> Vector3 \<Rightarrow> Line3" where
  "translate seg d = Line3 (Vector3_add (lstart seg) d) (Vector3_add (lend seg) d)"

text \<open>
  Modelled from the spec: what \<^verbatim>\<open>closestPointToSegment\<close> computes, which the
  specification gives as the minimum distance between the triangle and the segment,
  with a point on the triangle and a point on the segment that realise it. The points of
  a segment and of a triangle are the convex combinations of their ends and corners.
  \<open>closest_at cps tri seg\<close> says that \<open>cps\<close> meets this description at \<open>tri\<close> and \<open>seg\<close>.
\<close>

definition on_segment :: "Line3 \<Rightarrow> Vector3 \<Rightarrow> bool" where
  "on_segment seg p =
     (\<exists>t. 0 \<le> t \<and> t \<le> 1 \<and>
          p = Vector3_add (lstart seg)
                (Vector3_multiplyScalar (Vector3_sub (lend seg) (lstart seg)) t))"

definition on_triangle :: "Triangle \<Rightarrow> Vector3 \<Rightarrow> bool" where
  "on_triangle tri p =
     (\<exists>u v w. 0 \<le> u \<and> 0 \<le> v \<and> 0 \<le> w \<and> u + v + w = 1 \<and>
          p = Vector3_add (Vector3_add (Vector3_multiplyScalar (ta tri) u)
                            (Vector3_multiplyScalar (tb tri) v))
                (Vector3_multiplyScalar (tc tri) w))"

definition closest_at :: "closestPointToSegment \<Rightarrow> Triangle \<Rightarrow> Line3 \<Rightarrow> bool" where
  "closest_at cps tri seg =
     (case cps tri seg of
        (d, tp, cp) \<Rightarrow>
          on_triangle tri tp \<and> on_segment seg cp \<and> d = Vector3_distanceTo cp tp \<and>
          (\<forall>a b. on_triangle tri a \<longrightarrow> on_segment seg b \<longrightarrow> d \<le> Vector3_distanceTo b a))"



text \<open>
  What is used of \<^verbatim>\<open>toLowerCase\<close> where a statement speaks of the letter case of
  \<open>ground\<close>: a run of ASCII code units inside a string comes out with A to Z turned into
  a to z and the rest as it is, whatever stands before and after it, and with nothing
  before it or after it when nothing stood there. This holds of the engine's function,
  which maps code point by code point and looks at the neighbours of a capital sigma
  only. \<open>ascii_toLowerCase\<close> is the function on strings made of ASCII code units.
\<close>

definition ascii_lower_unit :: "nat \<Rightarrow> nat" where
  "ascii_lower_unit c = (if 65 \<le> c \<and> c \<le> 90 then c + 32 else c)"


definition ascii_toLowerCase :: "jsstring \<Rightarrow> jsstring" where
  "ascii_toLowerCase s = map ascii_lower_unit s"


section \<open>Example scenes\<close>

text \<open>A wall in the plane \<open>x = 5\<close>, alone in its collider, which sits at the origin.\<close>

definition wall_tri :: Triangle where
  "wall_tri = Triangle (Vector3 5 (- 4) (- 4)) (Vector3 5 (- 4) 4) (Vector3 5 8 0)"

definition wall_collider :: Mesh where
  "wall_collider =
     \<lparr>matrixWorld = Matrix4_identity,
      geometry = \<lparr>positions = [wall_tri],
                  boundsTree = Some (BVHLeaf (Box3 (Vector3 5 (- 4) (- 4)) (Vector3 5 8 4))
                                       [wall_tri])\<rparr>,
      visible = False\<rparr>"

text \<open>
  Closest points of the wall and a vertical segment on the side \<open>x \<le> 5\<close> whose start
  projects into the wall: the start of the segment and its projection onto the plane.
\<close>

definition wall_cps :: closestPointToSegment where
  "wall_cps tri seg =
     (5 - vx (lstart seg), Vector3 5 (vy (lstart seg)) (vz (lstart seg)), lstart seg)"

text \<open>
  Two triangles that meet at the origin at an acute angle, in one leaf: the first has
  normal \<open>(-1, 0, 0)\<close>, the second \<open>(3/5, 0, -4/5)\<close>.
\<close>

definition corner_a :: Triangle where
  "corner_a = Triangle (Vector3 0 0 0) (Vector3 0 0 1) (Vector3 0 1 0)"

definition corner_b :: Triangle where
  "corner_b = Triangle (Vector3 4 1 3) (Vector3 4 0 3) (Vector3 0 0 0)"

definition corner_collider :: Mesh where
  "corner_collider =
     \<lparr>matrixWorld = Matrix4_identity,
      geometry = \<lparr>positions = [corner_a, corner_b],
                  boundsTree = Some (BVHLeaf (Box3 (Vector3 0 0 0) (Vector3 4 1 3))
                                       [corner_a, corner_b])\<rparr>,
      visible = False\<rparr>"

text \<open>
  A horizontal triangle in the plane \<open>y = 0\<close> around the origin, alone in its collider.
  Closest points of it and a vertical segment above it whose start projects into it: the
  start of the segment and its projection onto the plane.
\<close>

definition floor_tri :: Triangle where
  "floor_tri = Triangle (Vector3 (- 4) 0 (- 4)) (Vector3 0 0 4) (Vector3 4 0 (- 4))"


definition floor_cps :: closestPointToSegment where
  "floor_cps tri seg =
     (vy (lstart seg), Vector3 (vx (lstart seg)) 0 (vz (lstart seg)), lstart seg)"

text \<open>A scene graph: a group with a wall, a ground plane and an object named after both.\<close>

definition scene_mesh :: Mesh where
  "scene_mesh =
     \<lparr>matrixWorld = Matrix4_identity,
      geometry = \<lparr>positions = [wall_tri], boundsTree = None\<rparr>,
      visible = True\<rparr>"


text \<open>A store in which a caller holds two vectors and a collider with the wall.\<close>

definition example_store :: store where
  "example_store =
     \<lparr>vectors = (\<lambda>a. Vector3 0 0 0)(4 := Vector3 4 0 0, 5 := Vector3 (9 / 2) 0 0),
      next_vector = 6,
      matrices = (\<lambda>m. Matrix4_identity),
      tempBox = EmptyBox\<rparr>"

definition wall_ref :: Mesh_ref where
  "wall_ref = \<lparr>matrixWorld_at = 1, geometry_of = geometry wall_collider\<rparr>"

section \<open>Claims\<close>

text \<open>
  C5. With no collider, or a collider whose geometry has no BVH, neither resolver fails:
  \<open>checkCollision\<close> returns the desired position and \<open>collided = False\<close>, and
  \<open>checkSimpleCollision\<close> returns \<open>position + velocity\<close>, the velocity as it was, and
  \<open>collided = False\<close>.
\<close>

theorem C5_no_collider_passes_through:
  "(collider = None \<or> (\<exists>c. collider = Some c \<and> boundsTree (geometry c) = None)) \<longrightarrow>
     checkCollision cps currentPosition desiredPosition collider st
       = \<lparr>position = desiredPosition, collided = False\<rparr> \<and>
     checkSimpleCollision pos vel collider r
       = \<lparr>position = Vector3_add pos vel, collided = False, velocity = vel\<rparr>"
  by (auto simp: checkCollision_def checkSimpleCollision_def)

theorem C5_no_collider_witness:
  "(checkCollision (\<lambda>t s. (0, Vector3 0 0 0, Vector3 0 0 0)) (Vector3 0 0 0) (Vector3 1 2 3) None
       kartColliderSettings
      = \<lparr>position = Vector3 1 2 3, collided = False\<rparr> \<and>
    checkSimpleCollision (Vector3 1 2 3) (Vector3 1 0 0) None 1
      = \<lparr>position = Vector3_add (Vector3 1 2 3) (Vector3 1 0 0), collided = False,
         velocity = Vector3 1 0 0\<rparr>) \<and>
   (checkCollision (\<lambda>t s. (0, Vector3 0 0 0, Vector3 0 0 0)) (Vector3 0 0 0) (Vector3 1 2 3)
       (Some scene_mesh) kartColliderSettings
      = \<lparr>position = Vector3 1 2 3, collided = False\<rparr> \<and>
    checkSimpleCollision (Vector3 1 2 3) (Vector3 1 0 0) (Some scene_mesh) 1
      = \<lparr>position = Vector3_add (Vector3 1 2 3) (Vector3 1 0 0), collided = False,
         velocity = Vector3 1 0 0\<rparr>)"
proof
  show "checkCollision (\<lambda>t s. (0, Vector3 0 0 0, Vector3 0 0 0)) (Vector3 0 0 0) (Vector3 1 2 3)
          None kartColliderSettings
         = \<lparr>position = Vector3 1 2 3, collided = False\<rparr> \<and>
        checkSimpleCollision (Vector3 1 2 3) (Vector3 1 0 0) None 1
         = \<lparr>position = Vector3_add (Vector3 1 2 3) (Vector3 1 0 0), collided = False,
            velocity = Vector3 1 0 0\<rparr>"
    by (rule C5_no_collider_passes_through [THEN mp]) simp
  show "checkCollision (\<lambda>t s. (0, Vector3 0 0 0, Vector3 0 0 0)) (Vector3 0 0 0) (Vector3 1 2 3)
          (Some scene_mesh) kartColliderSettings
         = \<lparr>position = Vector3 1 2 3, collided = False\<rparr> \<and>
        checkSimpleCollision (Vector3 1 2 3) (Vector3 1 0 0) (Some scene_mesh) 1
         = \<lparr>position = Vector3_add (Vector3 1 2 3) (Vector3 1 0 0), collided = False,
            velocity = Vector3 1 0 0\<rparr>"
    by (rule C5_no_collider_passes_through [THEN mp]) (simp add: scene_mesh_def)
qed

text \<open>
  C10. \<open>buildColliderFromMeshes\<close> with a \<^verbatim>\<open>null\<close> or \<^verbatim>\<open>undefined\<close> list returns
  \<^verbatim>\<open>null\<close> and warns, as it does for the empty list.
\<close>

theorem C10_missing_list_gives_null:
  "buildColliderFromMeshes generate newMeshBVH None
     = (None, [Warn ''KartCollision: No meshes provided'']) \<and>
   buildColliderFromMeshes generate newMeshBVH None
     = buildColliderFromMeshes generate newMeshBVH (Some [])"
  by (simp add: buildColliderFromMeshes_def)

text \<open>
  C6. When no mesh is left after filtering (\<open>buildCollider\<close>), or the list is empty
  (\<open>buildColliderFromMeshes\<close>), the factory returns \<^verbatim>\<open>null\<close> and one warning, and
  builds nothing.
\<close>

theorem C6_empty_mesh_set_gives_null:
  "(buildCollider_meshes toLowerCase grp includeNames excludeNames = [] \<longrightarrow>
      buildCollider generate newMeshBVH toLowerCase grp includeNames excludeNames
        = (None, [Warn ''KartCollision: No meshes found for collision''])) \<and>
   buildColliderFromMeshes generate newMeshBVH (Some [])
     = (None, [Warn ''KartCollision: No meshes provided''])"
  by (simp add: buildCollider_def buildColliderFromMeshes_def)


theorem C6_empty_mesh_set_witness:
  "buildCollider (\<lambda>ms. \<lparr>positions = [], boundsTree = None\<rparr>) (\<lambda>g. BVHLeaf EmptyBox [])
     ascii_toLowerCase
     (Object3D (js ''track'') False scene_mesh [Object3D (js ''Ground_0'') True scene_mesh []])
     None None
     = (None, [Warn ''KartCollision: No meshes found for collision''])"
  by (rule C6_empty_mesh_set_gives_null [THEN conjunct1, THEN mp])
     (simp add: buildCollider_meshes_def buildCollider_visit_def ascii_toLowerCase_def
        ascii_lower_unit_def js_def)

subsection \<open>The name filter\<close>

















subsection \<open>The capsule resolver\<close>

lemma shapecast_fold:
  "shapecast ib it bvh s = fold it (shapecast_visits ib bvh) s"
  by (induction bvh arbitrary: s) simp_all

lemma visits_Nil: "\<forall>box \<in> set (leaf_boxes bvh). \<not> ib box \<Longrightarrow> shapecast_visits ib bvh = []"
  by (induction bvh) simp_all

lemma capsule_step:
  "cps tri seg = (distance, triPoint, capsulePoint) \<Longrightarrow>
   capsule_intersectsTriangle cps st tri (seg, hit) =
     (if distance < radius st
      then (translate seg
              (Vector3_multiplyScalar (Vector3_normalize (Vector3_sub capsulePoint triPoint))
                 ((radius st - distance) * pushOutMultiplier st)),
            True)
      else (seg, hit))"
  by (simp add: capsule_intersectsTriangle_def Let_def translate_def Vector3_add_def
      Vector3_addScaledVector_def Vector3_multiplyScalar_def)

lemma capsule_miss:
  "\<not> fst (cps tri (fst s)) < radius st \<Longrightarrow> capsule_intersectsTriangle cps st tri s = s"
  by (auto simp: capsule_intersectsTriangle_def Let_def split: prod.splits)

lemma capsule_fold_miss:
  "\<forall>tri \<in> set ts. \<not> fst (cps tri (fst s)) < radius st \<Longrightarrow>
     fold (capsule_intersectsTriangle cps st) ts s = s"
  by (induction ts) (simp_all add: capsule_miss)

lemma checkCollision_fold:
  "boundsTree (geometry c) = Some bvh \<Longrightarrow>
   checkCollision cps currentPosition desiredPosition (Some c) st =
     checkCollision_result desiredPosition c
       (fold (capsule_intersectsTriangle cps st)
          (shapecast_visits
             (\<lambda>box. Box3_intersectsBox box
                       (capsule_box (capsule_segment desiredPosition c st) st)) bvh)
          (capsule_segment desiredPosition c st, False))"
  by (simp add: checkCollision_def Let_def shapecast_fold)

lemma checkCollision_not_collided:
  "\<not> collided (checkCollision cps currentPosition desiredPosition collider st) \<Longrightarrow>
   position (checkCollision cps currentPosition desiredPosition collider st) = desiredPosition"
  by (simp add: checkCollision_def checkCollision_result_def Let_def
      split: option.splits if_splits)


lemma identity_elements:
  "elements Matrix4_identity ! 0 = 1" "elements Matrix4_identity ! 1 = 0"
  "elements Matrix4_identity ! 2 = 0" "elements Matrix4_identity ! 3 = 0"
  "elements Matrix4_identity ! 4 = 0" "elements Matrix4_identity ! 5 = 1"
  "elements Matrix4_identity ! 6 = 0" "elements Matrix4_identity ! 7 = 0"
  "elements Matrix4_identity ! 8 = 0" "elements Matrix4_identity ! 9 = 0"
  "elements Matrix4_identity ! 10 = 1" "elements Matrix4_identity ! 11 = 0"
  "elements Matrix4_identity ! 12 = 0" "elements Matrix4_identity ! 13 = 0"
  "elements Matrix4_identity ! 14 = 0" "elements Matrix4_identity ! 15 = 1"
  by (simp_all add: Matrix4_identity_def)

lemma Matrix4_invert_identity: "Matrix4_invert Matrix4_identity = Matrix4_identity"
proof -
  have "Matrix4_invert Matrix4_identity
          = Matrix4 [1, 0, 0, 0,  0, 1, 0, 0,  0, 0, 1, 0,  0, 0, 0, 1]"
    unfolding Matrix4_invert_def Let_def identity_elements by simp
  then show ?thesis by (simp add: Matrix4_identity_def)
qed

lemma kart_fields:
  "radius kartColliderSettings = 4 / 5" "height kartColliderSettings = 1"
  "pushOutMultiplier kartColliderSettings = 1"
  by (simp_all add: kartColliderSettings_def)

lemma applyMatrix4_identity: "Vector3_applyMatrix4 v Matrix4_identity = v"
  by (simp add: Vector3_applyMatrix4_def Matrix4_identity_def)

lemma Vector3_length_x: "Vector3_length (Vector3 a 0 0) = \<bar>a\<bar>"
  by (simp add: Vector3_length_def)


lemma wall_segment:
  "capsule_segment (Vector3 a b d) wall_collider kartColliderSettings
     = Line3 (Vector3 a (4 / 5 + b) d) (Vector3 a (1 + b) d)"
  by (simp add: capsule_segment_def wall_collider_def Matrix4_invert_identity
      applyMatrix4_identity kart_fields Vector3_add_def)

lemma wall_box:
  "b1 \<le> b2 \<Longrightarrow>
   capsule_box (Line3 (Vector3 a b1 d) (Vector3 a b2 d)) kartColliderSettings
     = Box3 (Vector3 (a - 4 / 5) (b1 - 4 / 5) (d - 4 / 5))
         (Vector3 (a + 4 / 5) (b2 + 4 / 5) (d + 4 / 5))"
  by (simp add: capsule_box_def Box3_makeEmpty_def kart_fields Vector3_min_def
      Vector3_max_def Vector3_addScalar_def)

lemma wall_bvh:
  "boundsTree (geometry wall_collider)
     = Some (BVHLeaf (Box3 (Vector3 5 (- 4) (- 4)) (Vector3 5 8 4)) [wall_tri])"
  by (simp add: wall_collider_def)

text \<open>
  C2. The \<open>y\<close> component of the position \<open>checkCollision\<close> returns is the \<open>y\<close> component of
  the desired position, whether or not a collision occurred.
\<close>

theorem C2_y_is_desired_y:
  "vy (position (checkCollision cps currentPosition desiredPosition collider st))
     = vy desiredPosition"
  by (simp add: checkCollision_def checkCollision_result_def Let_def split: option.splits)

text \<open>
  C7. When \<open>checkCollision\<close> reports no collision, the position it returns is the desired
  position in all three components. It reports none when every visited triangle is at
  distance at least \<open>radius\<close> from the capsule segment, and in particular when the
  broad-phase box meets the box of no leaf, so that no triangle is visited.
\<close>

theorem C7_no_collision_returns_desired:
  "(\<not> collided (checkCollision cps currentPosition desiredPosition collider st) \<longrightarrow>
      position (checkCollision cps currentPosition desiredPosition collider st)
        = desiredPosition) \<and>
   (boundsTree (geometry c) = Some bvh \<and>
    (\<forall>tri \<in> set (shapecast_visits
                    (\<lambda>box. Box3_intersectsBox box
                              (capsule_box (capsule_segment desiredPosition c st) st)) bvh).
        \<not> fst (cps tri (capsule_segment desiredPosition c st)) < radius st) \<longrightarrow>
      checkCollision cps currentPosition desiredPosition (Some c) st
        = \<lparr>position = desiredPosition, collided = False\<rparr>) \<and>
   (boundsTree (geometry c) = Some bvh \<and>
    (\<forall>box \<in> set (leaf_boxes bvh).
        \<not> Box3_intersectsBox box (capsule_box (capsule_segment desiredPosition c st) st)) \<longrightarrow>
      checkCollision cps currentPosition desiredPosition (Some c) st
        = \<lparr>position = desiredPosition, collided = False\<rparr>)"
proof (intro conjI impI)
  assume "\<not> collided (checkCollision cps currentPosition desiredPosition collider st)"
  then show "position (checkCollision cps currentPosition desiredPosition collider st)
               = desiredPosition"
    by (rule checkCollision_not_collided)
next
  let ?seg0 = "capsule_segment desiredPosition c st"
  let ?vis = "shapecast_visits (\<lambda>box. Box3_intersectsBox box (capsule_box ?seg0 st)) bvh"
  assume a: "boundsTree (geometry c) = Some bvh \<and>
    (\<forall>tri \<in> set ?vis. \<not> fst (cps tri ?seg0) < radius st)"
  then have "fold (capsule_intersectsTriangle cps st) ?vis (?seg0, False) = (?seg0, False)"
    by (intro capsule_fold_miss) simp
  with a show "checkCollision cps currentPosition desiredPosition (Some c) st
        = \<lparr>position = desiredPosition, collided = False\<rparr>"
    by (simp add: checkCollision_fold checkCollision_result_def)
next
  let ?seg0 = "capsule_segment desiredPosition c st"
  let ?vis = "shapecast_visits (\<lambda>box. Box3_intersectsBox box (capsule_box ?seg0 st)) bvh"
  assume a: "boundsTree (geometry c) = Some bvh \<and>
    (\<forall>box \<in> set (leaf_boxes bvh). \<not> Box3_intersectsBox box (capsule_box ?seg0 st))"
  then have "?vis = []"
    by (intro visits_Nil) simp
  with a show "checkCollision cps currentPosition desiredPosition (Some c) st
        = \<lparr>position = desiredPosition, collided = False\<rparr>"
    by (simp add: checkCollision_fold checkCollision_result_def)
qed

theorem C7_no_collision_witness:
  "position (checkCollision wall_cps (Vector3 0 0 0) (Vector3 1 2 3) None kartColliderSettings)
     = Vector3 1 2 3 \<and>
   checkCollision wall_cps (Vector3 0 0 0) (Vector3 (21 / 5) 0 0) (Some wall_collider)
       kartColliderSettings
     = \<lparr>position = Vector3 (21 / 5) 0 0, collided = False\<rparr> \<and>
   checkCollision wall_cps (Vector3 0 0 0) (Vector3 0 0 0) (Some wall_collider)
       kartColliderSettings
     = \<lparr>position = Vector3 0 0 0, collided = False\<rparr>"
proof (intro conjI)
  show "position (checkCollision wall_cps (Vector3 0 0 0) (Vector3 1 2 3) None
          kartColliderSettings) = Vector3 1 2 3"
    by (rule C7_no_collision_returns_desired [THEN conjunct1, THEN mp])
       (simp add: checkCollision_def)
next
  show "checkCollision wall_cps (Vector3 0 0 0) (Vector3 (21 / 5) 0 0) (Some wall_collider)
       kartColliderSettings
     = \<lparr>position = Vector3 (21 / 5) 0 0, collided = False\<rparr>"
    by (rule C7_no_collision_returns_desired
          [where bvh = "BVHLeaf (Box3 (Vector3 5 (- 4) (- 4)) (Vector3 5 8 4)) [wall_tri]",
           THEN conjunct2, THEN conjunct1, THEN mp])
       (simp add: wall_bvh wall_segment wall_box wall_cps_def kart_fields)
next
  show "checkCollision wall_cps (Vector3 0 0 0) (Vector3 0 0 0) (Some wall_collider)
       kartColliderSettings
     = \<lparr>position = Vector3 0 0 0, collided = False\<rparr>"
    by (rule C7_no_collision_returns_desired
          [where bvh = "BVHLeaf (Box3 (Vector3 5 (- 4) (- 4)) (Vector3 5 8 4)) [wall_tri]",
           THEN conjunct2, THEN conjunct2, THEN mp])
       (simp add: wall_bvh wall_segment wall_box)
qed

text \<open>
  C1. In a call of \<open>checkCollision\<close> on a collider with a BVH, take any triangle the
  traversal visits, the segment and flag it finds (left by the triangles visited before
  it), and the distance and closest points the narrow phase returns for it. If the
  distance is below \<open>radius\<close>, the visit sets the flag and translates both ends of the
  segment by \<open>(radius - distance) * pushOutMultiplier\<close> along the normalized vector from
  the triangle's point to the segment's point; otherwise (distance equal to \<open>radius\<close>
  included) it changes nothing. The triangles visited later start from that state, and
  the result of the call is computed from what they leave.
\<close>

theorem C1_capsule_visit:
  assumes "boundsTree (geometry c) = Some bvh"
    and "shapecast_visits
           (\<lambda>box. Box3_intersectsBox box
                     (capsule_box (capsule_segment desiredPosition c st) st)) bvh
         = before @ tri # later"
    and "fold (capsule_intersectsTriangle cps st) before
           (capsule_segment desiredPosition c st, False) = (seg, hit)"
    and "cps tri seg = (distance, triPoint, capsulePoint)"
  shows "checkCollision cps currentPosition desiredPosition (Some c) st
         = checkCollision_result desiredPosition c
             (fold (capsule_intersectsTriangle cps st) later
                (if distance < radius st
                 then (translate seg
                         (Vector3_multiplyScalar
                            (Vector3_normalize (Vector3_sub capsulePoint triPoint))
                            ((radius st - distance) * pushOutMultiplier st)),
                       True)
                 else (seg, hit)))"
  using assms by (simp add: checkCollision_fold capsule_step)

theorem C1_capsule_visit_witness:
  "checkCollision wall_cps (Vector3 0 0 0) (Vector3 (9 / 2) 0 0) (Some wall_collider)
     kartColliderSettings
   = checkCollision_result (Vector3 (9 / 2) 0 0) wall_collider
       (Line3 (Vector3 (21 / 5) (4 / 5) 0) (Vector3 (21 / 5) 1 0), True)"
proof -
  let ?seg = "Line3 (Vector3 (9 / 2) (4 / 5) 0) (Vector3 (9 / 2) 1 0)"
  note 1 = wall_bvh
  have 2: "shapecast_visits
             (\<lambda>box. Box3_intersectsBox box
                (capsule_box (capsule_segment (Vector3 (9 / 2) 0 0) wall_collider
                   kartColliderSettings) kartColliderSettings))
             (BVHLeaf (Box3 (Vector3 5 (- 4) (- 4)) (Vector3 5 8 4)) [wall_tri])
           = [] @ wall_tri # []"
    by (simp add: wall_segment wall_box)
  have 3: "fold (capsule_intersectsTriangle wall_cps kartColliderSettings) []
             (capsule_segment (Vector3 (9 / 2) 0 0) wall_collider kartColliderSettings, False)
           = (?seg, False)"
    by (simp add: wall_segment)
  have 4: "wall_cps wall_tri ?seg = (1 / 2, Vector3 5 (4 / 5) 0, Vector3 (9 / 2) (4 / 5) 0)"
    by (simp add: wall_cps_def)
  have "Vector3_normalize (Vector3_sub (Vector3 (9 / 2) (4 / 5) 0) (Vector3 5 (4 / 5) 0))
          = Vector3 (- 1) 0 0"
    by (simp add: Vector3_sub_def Vector3_normalize_def Vector3_length_x
        Vector3_divideScalar_def Vector3_multiplyScalar_def)
  then have "(if 1 / 2 < radius kartColliderSettings
               then (translate ?seg
                       (Vector3_multiplyScalar
                          (Vector3_normalize
                             (Vector3_sub (Vector3 (9 / 2) (4 / 5) 0) (Vector3 5 (4 / 5) 0)))
                          ((radius kartColliderSettings - 1 / 2)
                             * pushOutMultiplier kartColliderSettings)),
                     True)
               else (?seg, False))
             = (Line3 (Vector3 (21 / 5) (4 / 5) 0) (Vector3 (21 / 5) 1 0), True)"
    by (simp add: kart_fields translate_def Vector3_multiplyScalar_def Vector3_add_def)
  then show ?thesis
    using C1_capsule_visit [OF 1 2 3 4, of "Vector3 0 0 0"]
    by simp
qed


subsection \<open>The simple resolver\<close>

lemma sqrt_less_iff: "0 < y \<Longrightarrow> sqrt x < y \<longleftrightarrow> x < y * y"
  by (metis abs_of_pos real_sqrt_abs2 real_sqrt_less_iff)

lemma getNormal_unit_or_zero:
  "Vector3_length (Triangle_getNormal t) = 1 \<or> Triangle_getNormal t = Vector3 0 0 0"
proof (cases "Vector3_lengthSq (Vector3_cross (Vector3_sub (tc t) (tb t)) (Vector3_sub (ta t) (tb t))) > 0")
  case False
  then show ?thesis by (simp add: Triangle_getNormal_def Let_def)
next
  case True
  define c where "c = Vector3_cross (Vector3_sub (tc t) (tb t)) (Vector3_sub (ta t) (tb t))"
  define L where "L = Vector3_lengthSq c"
  have L: "L > 0" using True by (simp add: L_def c_def)
  have n: "Triangle_getNormal t = Vector3_multiplyScalar c (1 / sqrt L)"
    using True by (simp add: Triangle_getNormal_def Let_def c_def L_def)
  have s: "sqrt L * sqrt L = L" using L by simp
  have "vx c * (1 / sqrt L) * (vx c * (1 / sqrt L)) + vy c * (1 / sqrt L) * (vy c * (1 / sqrt L))
        + vz c * (1 / sqrt L) * (vz c * (1 / sqrt L))
        = (vx c * vx c + vy c * vy c + vz c * vz c) / (sqrt L * sqrt L)"
    by (simp add: add_divide_distrib)
  also have "\<dots> = 1" using L unfolding s by (simp add: L_def Vector3_lengthSq_def)
  finally have "Vector3_length (Triangle_getNormal t) = 1"
    by (simp add: n Vector3_length_def Vector3_multiplyScalar_def)
  then show ?thesis by simp
qed

lemma normalize_fixed:
  "Vector3_length n = 1 \<or> n = Vector3 0 0 0 \<Longrightarrow> Vector3_normalize n = n"
  by (cases n) (auto simp: Vector3_normalize_def Vector3_divideScalar_def
      Vector3_multiplyScalar_def Vector3_length_def)

lemma normalize_getNormal: "Vector3_normalize (Triangle_getNormal t) = Triangle_getNormal t"
  by (rule normalize_fixed) (rule getNormal_unit_or_zero)

lemma dot_unit: "Vector3_length n = 1 \<Longrightarrow> Vector3_dot n n = 1"
proof -
  assume "Vector3_length n = 1"
  then have "sqrt (Vector3_dot n n) = 1" by (simp add: Vector3_length_def Vector3_dot_def)
  then show ?thesis by simp
qed

lemma dot_getNormal:
  "Vector3_dot (Triangle_getNormal t) (Triangle_getNormal t) = 1 \<or> Triangle_getNormal t = Vector3 0 0 0"
  using getNormal_unit_or_zero [of t] dot_unit by blast

lemma simple_step:
  "Vector3_distanceTo localPos (Triangle_getMidpoint tri) < r * 2 \<Longrightarrow>
   simple_intersectsTriangle Matrix4_identity localPos r tri (v, hit) =
     (Vector3_sub v (Vector3_multiplyScalar (Triangle_getNormal tri)
                       (11 / 10 * Vector3_dot v (Triangle_getNormal tri))),
      True)"
  by (simp add: simple_intersectsTriangle_def Let_def applyMatrix4_identity normalize_getNormal
      Vector3_addScaledVector_def Vector3_sub_def Vector3_multiplyScalar_def)

lemma simple_miss:
  "\<not> Vector3_distanceTo localPos (Triangle_getMidpoint tri) < r * 2 \<Longrightarrow>
   simple_intersectsTriangle mw localPos r tri s = s"
  by (simp add: simple_intersectsTriangle_def Let_def)

lemma dot_after:
  "Vector3_dot n n = 1 \<or> n = Vector3 0 0 0 \<Longrightarrow>
   Vector3_dot (Vector3_sub v (Vector3_multiplyScalar n (11 / 10 * Vector3_dot v n))) n
     = - (1 / 10) * Vector3_dot v n"
proof (erule disjE)
  assume u: "Vector3_dot n n = 1"
  have "Vector3_dot (Vector3_sub v (Vector3_multiplyScalar n (11 / 10 * Vector3_dot v n))) n
        = Vector3_dot v n - 11 / 10 * Vector3_dot v n * Vector3_dot n n"
    by (simp add: Vector3_dot_def Vector3_sub_def Vector3_multiplyScalar_def field_simps)
  then show ?thesis using u by simp
next
  assume "n = Vector3 0 0 0"
  then show ?thesis by (simp add: Vector3_dot_def Vector3_sub_def Vector3_multiplyScalar_def)
qed

lemma checkSimpleCollision_fold:
  "boundsTree (geometry c) = Some bvh \<Longrightarrow> matrixWorld c = Matrix4_identity \<Longrightarrow>
   checkSimpleCollision pos vel (Some c) r =
     (let s = fold (simple_intersectsTriangle Matrix4_identity (Vector3_add pos vel) r)
                (shapecast_visits
                   (\<lambda>box. Box3_intersectsBox box
                      (Box3_setFromCenterAndSize (Vector3_add pos vel)
                         (Vector3 (r * 2) (r * 2) (r * 2)))) bvh)
                (vel, False)
      in \<lparr>position = Vector3_add pos (fst s), collided = snd s, velocity = fst s\<rparr>)"
  by (simp add: checkSimpleCollision_def Let_def shapecast_fold Matrix4_invert_identity
      applyMatrix4_identity split: prod.splits)

lemma normal_a: "Triangle_getNormal corner_a = Vector3 (- 1) 0 0"
  by (simp add: Triangle_getNormal_def corner_a_def Vector3_cross_def Vector3_sub_def
      Vector3_lengthSq_def Vector3_multiplyScalar_def)

lemma sqrt25: "sqrt 25 = 5"
  using real_sqrt_abs2 [of 5] by simp

lemma normal_b: "Triangle_getNormal corner_b = Vector3 (3 / 5) 0 (- (4 / 5))"
  by (simp add: Triangle_getNormal_def corner_b_def Vector3_cross_def Vector3_sub_def
      Vector3_lengthSq_def Vector3_multiplyScalar_def sqrt25)

lemma mid_a: "Vector3_distanceTo (Vector3 1 0 2) (Triangle_getMidpoint corner_a) < 1 * 2"
  by (simp add: sqrt_less_iff Vector3_distanceTo_def Vector3_distanceToSquared_def
      Triangle_getMidpoint_def corner_a_def Vector3_add_def Vector3_multiplyScalar_def)

lemma mid_b: "Vector3_distanceTo (Vector3 1 0 2) (Triangle_getMidpoint corner_b) < 1 * 2"
  by (simp add: sqrt_less_iff Vector3_distanceTo_def Vector3_distanceToSquared_def
      Triangle_getMidpoint_def corner_b_def Vector3_add_def Vector3_multiplyScalar_def)

lemma corner_bvh: "boundsTree (geometry corner_collider) = Some (BVHLeaf (Box3 (Vector3 0 0 0) (Vector3 4 1 3))
                                       [corner_a, corner_b])"
  "matrixWorld corner_collider = Matrix4_identity"
  by (simp_all add: corner_collider_def)

lemma corner_visits:
  "shapecast_visits
     (\<lambda>box. Box3_intersectsBox box
        (Box3_setFromCenterAndSize (Vector3 1 0 2) (Vector3 (1 * 2) (1 * 2) (1 * 2))))
     (BVHLeaf (Box3 (Vector3 0 0 0) (Vector3 4 1 3)) [corner_a, corner_b])
   = [corner_a, corner_b]"
  by (simp add: Box3_setFromCenterAndSize_def Vector3_multiplyScalar_def Vector3_sub_def
      Vector3_add_def)

lemma corner_run:
  "checkSimpleCollision (Vector3 0 0 0) (Vector3 1 0 2) (Some corner_collider) 1
     = \<lparr>position = Vector3 (2489 / 2500) 0 (337 / 625), collided = True,
        velocity = Vector3 (2489 / 2500) 0 (337 / 625)\<rparr>"
proof -
  have p: "Vector3_add (Vector3 0 0 0) (Vector3 1 0 2) = Vector3 1 0 2"
    by (simp add: Vector3_add_def)
  show ?thesis
    unfolding checkSimpleCollision_fold [OF corner_bvh] p corner_visits
    by (simp add: simple_step [OF mid_a] simple_step [OF mid_b] normal_a normal_b
        Vector3_dot_def Vector3_sub_def Vector3_multiplyScalar_def Vector3_add_def)
qed

lemma simple_fold_True:
  "snd (fold (simple_intersectsTriangle mw localPos r) ts (v, True))"
proof (induction ts arbitrary: v)
  case Nil
  show ?case by simp
next
  case (Cons t ts)
  obtain v' where "simple_intersectsTriangle mw localPos r t (v, True) = (v', True)"
    by (cases "Vector3_distanceTo localPos (Triangle_getMidpoint t) < r * 2")
       (simp_all add: simple_intersectsTriangle_def Let_def)
  then show ?case using Cons.IH by simp
qed

text \<open>
  C3, as the claim states it, fails at the corner. Both triangles are visited and both
  midpoints are within \<open>2 * radius\<close> of the tentative position; the velocity \<open>(1, 0, 2)\<close>
  has component \<open>-1\<close> along the normal of the first triangle, and the velocity returned
  still has component \<open>-2489/2500\<close> along it: the correction for the second triangle
  puts back what the first removed.
\<close>

theorem C3_returned_velocity_counterexample:
  "shapecast_visits
     (\<lambda>box. Box3_intersectsBox box
        (Box3_setFromCenterAndSize (Vector3 1 0 2) (Vector3 (1 * 2) (1 * 2) (1 * 2))))
     (BVHLeaf (Box3 (Vector3 0 0 0) (Vector3 4 1 3)) [corner_a, corner_b])
     = [corner_a, corner_b] \<and>
   Vector3_distanceTo (Vector3 1 0 2) (Triangle_getMidpoint corner_a) < 1 * 2 \<and>
   Triangle_getNormal corner_a = Vector3 (- 1) 0 0 \<and>
   Vector3_dot (Vector3 1 0 2) (Triangle_getNormal corner_a) = - 1 \<and>
   Vector3_dot
     (velocity (checkSimpleCollision (Vector3 0 0 0) (Vector3 1 0 2) (Some corner_collider) 1))
     (Triangle_getNormal corner_a) = - (2489 / 2500)"
  using corner_visits mid_a by (simp add: normal_a corner_run Vector3_dot_def)

text \<open>
  C3, amended. For a collider at the origin (world matrix the identity), take any
  triangle the traversal of \<open>checkSimpleCollision\<close> visits whose midpoint is at distance
  below \<open>2 * radius\<close> from the tentative position, and the velocity \<open>v\<close> left by the
  triangles visited before it. The visit replaces \<open>v\<close> by \<open>v - 1.1 (v \<cdot> n) n\<close>, \<open>n\<close> the
  normal of the triangle, whose component along \<open>n\<close> is \<open>-1/10\<close> of that of \<open>v\<close>; the
  call returns \<open>collided = True\<close>; the velocity returned is what the triangles visited
  later make of it, and is \<open>v - 1.1 (v \<cdot> n) n\<close> itself when none is visited later.
\<close>

theorem C3_simple_visit:
  assumes "boundsTree (geometry c) = Some bvh"
    and "matrixWorld c = Matrix4_identity"
    and "shapecast_visits
           (\<lambda>box. Box3_intersectsBox box
              (Box3_setFromCenterAndSize (Vector3_add pos vel)
                 (Vector3 (r * 2) (r * 2) (r * 2)))) bvh
         = before @ tri # later"
    and "fold (simple_intersectsTriangle Matrix4_identity (Vector3_add pos vel) r) before
           (vel, False) = (v, hit)"
    and "Vector3_distanceTo (Vector3_add pos vel) (Triangle_getMidpoint tri) < r * 2"
  shows "collided (checkSimpleCollision pos vel (Some c) r) \<and>
         velocity (checkSimpleCollision pos vel (Some c) r)
           = fst (fold (simple_intersectsTriangle Matrix4_identity (Vector3_add pos vel) r) later
                    (Vector3_sub v (Vector3_multiplyScalar (Triangle_getNormal tri)
                                      (11 / 10 * Vector3_dot v (Triangle_getNormal tri))),
                     True)) \<and>
         Vector3_dot
           (Vector3_sub v (Vector3_multiplyScalar (Triangle_getNormal tri)
                             (11 / 10 * Vector3_dot v (Triangle_getNormal tri))))
           (Triangle_getNormal tri)
           = - (1 / 10) * Vector3_dot v (Triangle_getNormal tri) \<and>
         (later = [] \<longrightarrow>
            velocity (checkSimpleCollision pos vel (Some c) r)
              = Vector3_sub v (Vector3_multiplyScalar (Triangle_getNormal tri)
                                 (11 / 10 * Vector3_dot v (Triangle_getNormal tri))))"
proof -
  let ?step = "simple_intersectsTriangle Matrix4_identity (Vector3_add pos vel) r"
  let ?v' = "Vector3_sub v (Vector3_multiplyScalar (Triangle_getNormal tri)
                              (11 / 10 * Vector3_dot v (Triangle_getNormal tri)))"
  have run: "checkSimpleCollision pos vel (Some c) r =
      (let s = fold ?step later (?v', True)
       in \<lparr>position = Vector3_add pos (fst s), collided = snd s, velocity = fst s\<rparr>)"
    unfolding checkSimpleCollision_fold [OF assms(1,2)] assms(3)
    by (simp add: assms(4) simple_step [OF assms(5)])
  have 1: "collided (checkSimpleCollision pos vel (Some c) r)"
    unfolding run by (simp add: Let_def simple_fold_True)
  have 2: "velocity (checkSimpleCollision pos vel (Some c) r) = fst (fold ?step later (?v', True))"
    unfolding run by (simp add: Let_def)
  have 3: "Vector3_dot ?v' (Triangle_getNormal tri)
             = - (1 / 10) * Vector3_dot v (Triangle_getNormal tri)"
    by (rule dot_after) (rule dot_getNormal)
  from 1 2 3 show ?thesis by simp
qed

lemma sqrt9216: "sqrt 9216 = 96"
  using real_sqrt_abs2 [of 96] by simp

lemma wall_normal: "Triangle_getNormal wall_tri = Vector3 (- 1) 0 0"
  by (simp add: Triangle_getNormal_def wall_tri_def Vector3_cross_def Vector3_sub_def
      Vector3_lengthSq_def Vector3_multiplyScalar_def sqrt9216)

lemma wall_midpoint: "Triangle_getMidpoint wall_tri = Vector3 5 0 0"
  by (simp add: Triangle_getMidpoint_def wall_tri_def Vector3_add_def
      Vector3_multiplyScalar_def)

theorem C3_simple_visit_witness:
  "collided (checkSimpleCollision (Vector3 4 0 0) (Vector3 (1 / 2) 0 0) (Some wall_collider) 1) \<and>
   velocity (checkSimpleCollision (Vector3 4 0 0) (Vector3 (1 / 2) 0 0) (Some wall_collider) 1)
     = Vector3 (- (1 / 20)) 0 0"
proof -
  have p: "Vector3_add (Vector3 4 0 0) (Vector3 (1 / 2) 0 0) = Vector3 (9 / 2) 0 0"
    by (simp add: Vector3_add_def)
  have 1: "matrixWorld wall_collider = Matrix4_identity"
    by (simp add: wall_collider_def)
  have 2: "shapecast_visits
             (\<lambda>box. Box3_intersectsBox box
                (Box3_setFromCenterAndSize (Vector3_add (Vector3 4 0 0) (Vector3 (1 / 2) 0 0))
                   (Vector3 (1 * 2) (1 * 2) (1 * 2))))
             (BVHLeaf (Box3 (Vector3 5 (- 4) (- 4)) (Vector3 5 8 4)) [wall_tri])
           = [] @ wall_tri # []"
    by (simp add: p Box3_setFromCenterAndSize_def Vector3_multiplyScalar_def Vector3_sub_def
        Vector3_add_def)
  have 3: "fold (simple_intersectsTriangle Matrix4_identity
                   (Vector3_add (Vector3 4 0 0) (Vector3 (1 / 2) 0 0)) 1) []
             (Vector3 (1 / 2) 0 0, False) = (Vector3 (1 / 2) 0 0, False)"
    by simp
  have 4: "Vector3_distanceTo (Vector3_add (Vector3 4 0 0) (Vector3 (1 / 2) 0 0))
             (Triangle_getMidpoint wall_tri) < 1 * 2"
    by (simp add: p wall_midpoint sqrt_less_iff Vector3_distanceTo_def
        Vector3_distanceToSquared_def)
  have "Vector3_sub (Vector3 (1 / 2) 0 0)
          (Vector3_multiplyScalar (Triangle_getNormal wall_tri)
             (11 / 10 * Vector3_dot (Vector3 (1 / 2) 0 0) (Triangle_getNormal wall_tri)))
        = Vector3 (- (1 / 20)) 0 0"
    by (simp add: wall_normal Vector3_dot_def Vector3_sub_def Vector3_multiplyScalar_def)
  then show ?thesis
    using C3_simple_visit [OF wall_bvh 1 2 3 4] by simp
qed


subsection \<open>Running the capsule resolver again\<close>


lemma abs_vy_le_dist: "\<bar>vy b - vy a\<bar> \<le> Vector3_distanceTo b a"
proof -
  have "sqrt ((vy b - vy a) * (vy b - vy a)) \<le> Vector3_distanceTo b a"
    unfolding Vector3_distanceTo_def Vector3_distanceToSquared_def Let_def
    by (rule real_sqrt_le_mono) simp
  then show ?thesis by simp
qed

lemma dist_along_y: "Vector3_distanceTo (Vector3 x a z) (Vector3 x b z) = \<bar>a - b\<bar>"
  by (simp add: Vector3_distanceTo_def Vector3_distanceToSquared_def Let_def)

lemma floor_closest:
  assumes "0 \<le> y0" "y0 \<le> y1"
  shows "closest_at floor_cps floor_tri (Line3 (Vector3 0 y0 0) (Vector3 0 y1 0))"
proof -
  let ?seg = "Line3 (Vector3 0 y0 0) (Vector3 0 y1 0)"
  have "Vector3 0 0 0
          = Vector3_add (Vector3_add (Vector3_multiplyScalar (ta floor_tri) (1 / 4))
                           (Vector3_multiplyScalar (tb floor_tri) (1 / 2)))
              (Vector3_multiplyScalar (tc floor_tri) (1 / 4))"
    by (simp add: floor_tri_def Vector3_add_def Vector3_multiplyScalar_def)
  moreover have "(0::real) \<le> 1 / 4" "(0::real) \<le> 1 / 2" "(1::real) / 4 + 1 / 2 + 1 / 4 = 1"
    by simp_all
  ultimately have 1: "on_triangle floor_tri (Vector3 0 0 0)"
    unfolding on_triangle_def by blast
  have "Vector3 0 y0 0
          = Vector3_add (lstart ?seg)
              (Vector3_multiplyScalar (Vector3_sub (lend ?seg) (lstart ?seg)) 0)"
    by (simp add: Vector3_add_def Vector3_multiplyScalar_def)
  moreover have "(0::real) \<le> 0" "(0::real) \<le> 1" by simp_all
  ultimately have 2: "on_segment ?seg (Vector3 0 y0 0)"
    unfolding on_segment_def by blast
  have 3: "y0 = Vector3_distanceTo (Vector3 0 y0 0) (Vector3 0 0 0)"
    using assms by (simp add: dist_along_y)
  have 4: "y0 \<le> Vector3_distanceTo b a" if a: "on_triangle floor_tri a" and b: "on_segment ?seg b"
    for a b
  proof -
    from a have ya: "vy a = 0"
      by (auto simp: on_triangle_def floor_tri_def Vector3_add_def Vector3_multiplyScalar_def)
    from b obtain t where t: "0 \<le> t" "vy b = y0 + (y1 - y0) * t"
      by (auto simp: on_segment_def Vector3_add_def Vector3_multiplyScalar_def Vector3_sub_def)
    have "0 \<le> (y1 - y0) * t" using assms t(1) by simp
    then have "y0 \<le> vy b" using t(2) by simp
    with abs_vy_le_dist [of b a] show ?thesis by (simp add: ya)
  qed
  from 1 2 3 4 show ?thesis
    by (simp add: closest_at_def floor_cps_def)
qed








subsection \<open>The resolvers on a store\<close>

lemmas addr_defs = tempVector_def tempVector2_def tempSegment_start_def tempSegment_end_def
  tempMat_def
lemmas op_defs = v_write_def v_new_def h_clone_def h_copy_def h_add_def h_sub_def
  h_normalize_def h_applyMatrix4_def h_addScaledVector_def h_copy_invert_def

lemma shapecast_invariant:
  assumes "\<And>tri x. I x \<Longrightarrow> I (it tri x)" and "I x"
  shows "I (shapecast ib it bvh x)"
proof -
  have f: "I (fold it ts y)" if "I y" for ts y
    using that by (induction ts arbitrary: y) (simp_all add: assms(1))
  show ?thesis unfolding shapecast_fold by (rule f) (rule assms(2))
qed

lemma capsule_scratch_only:
  "scratch_only s0 (fst x) \<Longrightarrow> scratch_only s0 (fst (h_capsule_intersectsTriangle cps st tri x))"
  by (auto simp: h_capsule_intersectsTriangle_def h_closestPointToSegment_def scratch_only_def
      Let_def op_defs addr_defs split: prod.splits)

lemma capsule_traversal:
  "scratch_only s (fst (shapecast ib (h_capsule_intersectsTriangle cps st) bvh (s, False)))"
proof (rule shapecast_invariant [where I = "\<lambda>x. scratch_only s (fst x)"])
  show "scratch_only s (fst (s, False))" by (simp add: scratch_only_def)
qed (rule capsule_scratch_only)

lemma simple_scratch_and:
  "scratch_and rv s0 (fst x) \<Longrightarrow>
   scratch_and rv s0 (fst (h_simple_intersectsTriangle mw localPos rv r tri x))"
  by (auto simp: h_simple_intersectsTriangle_def scratch_and_def Let_def op_defs addr_defs)

lemma simple_traversal:
  "scratch_and rv s
     (fst (shapecast ib (h_simple_intersectsTriangle mw localPos rv r) bvh (s, False)))"
proof (rule shapecast_invariant [where I = "\<lambda>x. scratch_and rv s (fst x)"])
  show "scratch_and rv s (fst (s, False))" by (simp add: scratch_and_def)
qed (rule simple_scratch_and)

lemma prepare_frame:
  "next_vector (h_capsule_prepare d c st s) = next_vector s + 2"
  "4 \<le> a \<Longrightarrow> a < next_vector s \<Longrightarrow> vectors (h_capsule_prepare d c st s) a = vectors s a"
  "m \<noteq> tempMat \<Longrightarrow> matrices (h_capsule_prepare d c st s) m = matrices s m"
  by (simp_all add: h_capsule_prepare_def op_defs addr_defs Let_def)

lemma result_frame:
  "next_vector (fst x) \<le> next_vector (h_checkCollision_result rp c x)"
  "a \<noteq> rp \<Longrightarrow> a < next_vector (fst x) \<Longrightarrow>
     vectors (h_checkCollision_result rp c x) a = vectors (fst x) a"
  "matrices (h_checkCollision_result rp c x) = matrices (fst x)"
  by (simp_all add: h_checkCollision_result_def op_defs Let_def)


lemma clone_frame:
  "fst (h_clone v s) = next_vector s"
  "next_vector (snd (h_clone v s)) = Suc (next_vector s)"
  "a < next_vector s \<Longrightarrow> vectors (snd (h_clone v s)) a = vectors s a"
  "matrices (snd (h_clone v s)) = matrices s"
  by (simp_all add: op_defs)

lemma h_checkCollision_early:
  "collider = None \<or> (\<exists>c. collider = Some c \<and> boundsTree (geometry_of c) = None) \<Longrightarrow>
   h_checkCollision cps currentPosition desiredPosition collider st s
     = ((fst (h_clone desiredPosition s), False), snd (h_clone desiredPosition s))"
  by (auto simp: h_checkCollision_def Let_def split: prod.splits)

lemma h_checkCollision_run:
  "collider = Some c \<Longrightarrow> boundsTree (geometry_of c) = Some bvh \<Longrightarrow>
   h_checkCollision cps currentPosition desiredPosition collider st s
     = (let rp = fst (h_clone desiredPosition s);
            s8 = h_capsule_prepare desiredPosition c st (snd (h_clone desiredPosition s));
            x = shapecast (\<lambda>box. Box3_intersectsBox box (tempBox s8))
                  (h_capsule_intersectsTriangle cps st) bvh (s8, False)
        in ((rp, snd x), h_checkCollision_result rp c x))"
  by (simp add: h_checkCollision_def Let_def split: prod.splits)

lemma h_checkCollision_frame:
  fixes cps currentPosition desiredPosition collider st s
  defines "R \<equiv> h_checkCollision cps currentPosition desiredPosition collider st s"
  shows "fst (fst R) = next_vector s"
    and "next_vector s < next_vector (snd R)"
    and "4 \<le> a \<Longrightarrow> a < next_vector s \<Longrightarrow> vectors (snd R) a = vectors s a"
    and "m \<noteq> tempMat \<Longrightarrow> matrices (snd R) m = matrices s m"
proof -
  consider (early) "collider = None \<or> (\<exists>c. collider = Some c \<and> boundsTree (geometry_of c) = None)"
    | (run) c bvh where "collider = Some c" "boundsTree (geometry_of c) = Some bvh"
    by (cases collider) auto
  then have "fst (fst R) = next_vector s \<and> next_vector s < next_vector (snd R) \<and>
      (4 \<le> a \<longrightarrow> a < next_vector s \<longrightarrow> vectors (snd R) a = vectors s a) \<and>
      (m \<noteq> tempMat \<longrightarrow> matrices (snd R) m = matrices s m)"
  proof cases
    case early
    show ?thesis
      unfolding R_def h_checkCollision_early [OF early] by (simp add: clone_frame)
  next
    case run
    define s1 where "s1 = snd (h_clone desiredPosition s)"
    define s8 where "s8 = h_capsule_prepare desiredPosition c st s1"
    define x where "x = shapecast (\<lambda>box. Box3_intersectsBox box (tempBox s8))
                  (h_capsule_intersectsTriangle cps st) bvh (s8, False)"
    have R: "R = ((next_vector s, snd x), h_checkCollision_result (next_vector s) c x)"
      unfolding R_def h_checkCollision_run [OF run] x_def s8_def s1_def
      by (simp add: Let_def clone_frame)
    have n1: "next_vector s1 = Suc (next_vector s)" by (simp add: s1_def clone_frame)
    have n8: "next_vector s8 = next_vector s + 3" by (simp add: s8_def prepare_frame n1)
    have "scratch_only s8 (fst x)" unfolding x_def by (rule capsule_traversal)
    then have nx: "next_vector (fst x) = next_vector s + 3"
      and vx: "\<And>b. 4 \<le> b \<Longrightarrow> vectors (fst x) b = vectors s8 b"
      and mx: "matrices (fst x) = matrices s8"
      by (auto simp: scratch_only_def n8)
    have 2: "next_vector s < next_vector (snd R)"
      using result_frame(1) [of x "next_vector s" c] by (simp add: R nx)
    have 3: "vectors (snd R) a = vectors s a" if a: "4 \<le> a" "a < next_vector s"
    proof -
      have "vectors (snd R) a = vectors (fst x) a"
        using a by (simp add: R result_frame(2) nx)
      also have "\<dots> = vectors s8 a" using a by (simp add: vx)
      also have "\<dots> = vectors s1 a" using a by (simp add: s8_def prepare_frame(2) n1)
      also have "\<dots> = vectors s a" using a by (simp add: s1_def clone_frame)
      finally show ?thesis .
    qed
    have 4: "matrices (snd R) m = matrices s m" if "m \<noteq> tempMat"
      using that by (simp add: R result_frame(3) mx s8_def prepare_frame(3) s1_def clone_frame)
    from 2 3 4 show ?thesis by (simp add: R)
  qed
  then show "fst (fst R) = next_vector s"
    and "next_vector s < next_vector (snd R)"
    and "4 \<le> a \<Longrightarrow> a < next_vector s \<Longrightarrow> vectors (snd R) a = vectors s a"
    and "m \<noteq> tempMat \<Longrightarrow> matrices (snd R) m = matrices s m"
    by simp_all
qed


lemma simple_prepare_frame:
  "fst (h_simple_prepare pos vel c r s) = Suc (next_vector s)"
  "next_vector (snd (h_simple_prepare pos vel c r s)) = next_vector s + 3"
  "a < next_vector s \<Longrightarrow> vectors (snd (h_simple_prepare pos vel c r s)) a = vectors s a"
  "m \<noteq> tempMat \<Longrightarrow> matrices (snd (h_simple_prepare pos vel c r s)) m = matrices s m"
  by (simp_all add: h_simple_prepare_def op_defs Let_def)

lemma h_checkSimpleCollision_early:
  "collider = None \<or> (\<exists>c. collider = Some c \<and> boundsTree (geometry_of c) = None) \<Longrightarrow>
   h_checkSimpleCollision pos vel collider r s
     = ((next_vector s, Suc (next_vector s), False),
        snd (h_clone vel (h_add (next_vector s) vel (snd (h_clone pos s)))))"
  by (auto simp: h_checkSimpleCollision_def Let_def op_defs split: prod.splits)

lemma h_checkSimpleCollision_run:
  "collider = Some c \<Longrightarrow> boundsTree (geometry_of c) = Some bvh \<Longrightarrow>
   h_checkSimpleCollision pos vel collider r s
     = (let rp = next_vector s;
            rv = Suc (next_vector s);
            s2 = snd (h_clone vel (snd (h_clone pos s)));
            localPos = fst (h_simple_prepare pos vel c r s2);
            s9 = snd (h_simple_prepare pos vel c r s2);
            x = shapecast (\<lambda>box. Box3_intersectsBox box (tempBox s9))
                  (h_simple_intersectsTriangle (matrixWorld_at c) localPos rv r) bvh (s9, False)
        in ((rp, rv, snd x), h_add rp rv (fst x)))"
  by (simp add: h_checkSimpleCollision_def Let_def case_prod_beta clone_frame)

lemma h_checkSimpleCollision_frame:
  fixes pos vel collider r s
  defines "R \<equiv> h_checkSimpleCollision pos vel collider r s"
  shows "fst (fst R) = next_vector s"
    and "fst (snd (fst R)) = Suc (next_vector s)"
    and "Suc (next_vector s) < next_vector (snd R)"
    and "4 \<le> a \<Longrightarrow> a < next_vector s \<Longrightarrow> vectors (snd R) a = vectors s a"
    and "m \<noteq> tempMat \<Longrightarrow> matrices (snd R) m = matrices s m"
proof -
  consider (early) "collider = None \<or> (\<exists>c. collider = Some c \<and> boundsTree (geometry_of c) = None)"
    | (run) c bvh where "collider = Some c" "boundsTree (geometry_of c) = Some bvh"
    by (cases collider) auto
  then have "fst (fst R) = next_vector s \<and> fst (snd (fst R)) = Suc (next_vector s) \<and>
      Suc (next_vector s) < next_vector (snd R) \<and>
      (4 \<le> a \<longrightarrow> a < next_vector s \<longrightarrow> vectors (snd R) a = vectors s a) \<and>
      (m \<noteq> tempMat \<longrightarrow> matrices (snd R) m = matrices s m)"
  proof cases
    case early
    show ?thesis
      unfolding R_def h_checkSimpleCollision_early [OF early] by (simp add: op_defs)
  next
    case run
    define s2 where "s2 = snd (h_clone vel (snd (h_clone pos s)))"
    define s9 where "s9 = snd (h_simple_prepare pos vel c r s2)"
    define x where "x = shapecast (\<lambda>box. Box3_intersectsBox box (tempBox s9))
                  (h_simple_intersectsTriangle (matrixWorld_at c)
                     (fst (h_simple_prepare pos vel c r s2)) (Suc (next_vector s)) r) bvh
                  (s9, False)"
    have R: "R = ((next_vector s, Suc (next_vector s), snd x),
                  h_add (next_vector s) (Suc (next_vector s)) (fst x))"
      unfolding R_def h_checkSimpleCollision_run [OF run] x_def s9_def s2_def
      by (simp add: Let_def)
    have n2: "next_vector s2 = next_vector s + 2" by (simp add: s2_def clone_frame)
    have v2: "\<And>b. b < next_vector s \<Longrightarrow> vectors s2 b = vectors s b"
      by (simp add: s2_def clone_frame)
    have m2: "matrices s2 = matrices s" by (simp add: s2_def clone_frame)
    have n9: "next_vector s9 = next_vector s + 5" by (simp add: s9_def simple_prepare_frame n2)
    have "scratch_and (Suc (next_vector s)) s9 (fst x)" unfolding x_def by (rule simple_traversal)
    then have nx: "next_vector (fst x) = next_vector s + 5"
      and vx: "\<And>b. 4 \<le> b \<Longrightarrow> b \<noteq> Suc (next_vector s) \<Longrightarrow> vectors (fst x) b = vectors s9 b"
      and mx: "matrices (fst x) = matrices s9"
      by (auto simp: scratch_and_def n9)
    have 3: "vectors (snd R) a = vectors s a" if a: "4 \<le> a" "a < next_vector s"
    proof -
      have "vectors (snd R) a = vectors (fst x) a"
        using a by (simp add: R op_defs)
      also have "\<dots> = vectors s9 a" using a by (simp add: vx)
      also have "\<dots> = vectors s2 a" using a by (simp add: s9_def simple_prepare_frame(3) n2)
      also have "\<dots> = vectors s a" using a by (simp add: v2)
      finally show ?thesis .
    qed
    have 4: "matrices (snd R) m = matrices s m" if "m \<noteq> tempMat"
      using that by (simp add: R op_defs mx s9_def simple_prepare_frame(4) m2)
    have 2: "Suc (next_vector s) < next_vector (snd R)"
      by (simp add: R op_defs nx)
    from 2 3 4 show ?thesis by (simp add: R)
  qed
  then show "fst (fst R) = next_vector s"
    and "fst (snd (fst R)) = Suc (next_vector s)"
    and "Suc (next_vector s) < next_vector (snd R)"
    and "4 \<le> a \<Longrightarrow> a < next_vector s \<Longrightarrow> vectors (snd R) a = vectors s a"
    and "m \<noteq> tempMat \<Longrightarrow> matrices (snd R) m = matrices s m"
    by simp_all
qed


lemma capsule_sim:
  "(segment_of (fst (h_capsule_intersectsTriangle cps st tri x)),
    snd (h_capsule_intersectsTriangle cps st tri x))
   = capsule_intersectsTriangle cps st tri (segment_of (fst x), snd x)"
  by (cases x)
     (simp add: h_capsule_intersectsTriangle_def capsule_intersectsTriangle_def
        h_closestPointToSegment_def segment_of_def Let_def op_defs addr_defs case_prod_beta)

lemma fold_sim:
  assumes "\<And>t x. al (hf t x) = f t (al x)"
  shows "al (fold hf ts x) = fold f ts (al x)"
  by (induction ts arbitrary: x) (simp_all add: assms)

lemma capsule_traversal_sim:
  "(segment_of (fst (shapecast ib (h_capsule_intersectsTriangle cps st) bvh x)),
    snd (shapecast ib (h_capsule_intersectsTriangle cps st) bvh x))
   = shapecast ib (capsule_intersectsTriangle cps st) bvh (segment_of (fst x), snd x)"
  unfolding shapecast_fold
  by (rule fold_sim [where al = "\<lambda>x. (segment_of (fst x), snd x)"]) (rule capsule_sim)

lemma prepare_values:
  assumes "4 \<le> d" "d < next_vector s" "matrixWorld_at c \<noteq> tempMat"
  shows "segment_of (h_capsule_prepare d c st s) = capsule_segment (vectors s d) (mesh_of s c) st"
    and "tempBox (h_capsule_prepare d c st s)
           = capsule_box (capsule_segment (vectors s d) (mesh_of s c) st) st"
    and "matrices (h_capsule_prepare d c st s) (matrixWorld_at c) = matrices s (matrixWorld_at c)"
  using assms
  by (simp_all add: h_capsule_prepare_def segment_of_def capsule_segment_def capsule_box_def
      mesh_of_def op_defs addr_defs Let_def Box3_makeEmpty_def)

lemma result_values:
  assumes "4 \<le> rp" "rp < next_vector (fst x)"
  shows "vectors (h_checkCollision_result rp c x) rp
           = position (checkCollision_result (vectors (fst x) rp)
                         \<lparr>matrixWorld = matrices (fst x) (matrixWorld_at c),
                            geometry = g, visible = v\<rparr>
                         (segment_of (fst x), snd x))"
  using assms
  by (simp add: h_checkCollision_result_def checkCollision_result_def segment_of_def
      op_defs addr_defs Let_def)

lemma h_checkCollision_refines:
  fixes cps cur d c st s
  assumes d: "4 \<le> d" "d < next_vector s" and mw: "matrixWorld_at c \<noteq> tempMat"
  defines "R \<equiv> h_checkCollision cps cur d (Some c) st s"
  defines "P \<equiv> checkCollision cps (vectors s cur) (vectors s d) (Some (mesh_of s c)) st"
  shows "vectors (snd R) (fst (fst R)) = position P \<and> snd (fst R) = collided P"
proof (cases "boundsTree (geometry_of c)")
  case None
  then have "R = ((next_vector s, False), snd (h_clone d s))"
    unfolding R_def by (simp add: h_checkCollision_early clone_frame)
  moreover have "P = \<lparr>position = vectors s d, collided = False\<rparr>"
    unfolding P_def using None by (simp add: checkCollision_def mesh_of_def)
  ultimately show ?thesis by (simp add: op_defs)
next
  case (Some bvh)
  define s1 where "s1 = snd (h_clone d s)"
  define s8 where "s8 = h_capsule_prepare d c st s1"
  define x where "x = shapecast (\<lambda>box. Box3_intersectsBox box (tempBox s8))
                (h_capsule_intersectsTriangle cps st) bvh (s8, False)"
  let ?seg0 = "capsule_segment (vectors s d) (mesh_of s c) st"
  define y where "y = shapecast (\<lambda>box. Box3_intersectsBox box (capsule_box ?seg0 st))
                (capsule_intersectsTriangle cps st) bvh (?seg0, False)"
  have R: "R = ((next_vector s, snd x), h_checkCollision_result (next_vector s) c x)"
    unfolding R_def x_def s8_def s1_def
    by (simp add: h_checkCollision_run [OF refl Some] Let_def clone_frame)
  have P: "P = checkCollision_result (vectors s d) (mesh_of s c) y"
    unfolding P_def y_def using Some by (simp add: checkCollision_def mesh_of_def Let_def)
  have d1: "d < next_vector s1" "vectors s1 d = vectors s d"
      "matrices s1 = matrices s" "vectors s1 (next_vector s) = vectors s d"
      "next_vector s1 = Suc (next_vector s)"
    using d by (simp_all add: s1_def op_defs)
  have m1: "mesh_of s1 c = mesh_of s c" by (simp add: mesh_of_def d1)
  have seg8: "segment_of s8 = ?seg0" and box8: "tempBox s8 = capsule_box ?seg0 st"
    and mat8: "matrices s8 (matrixWorld_at c) = matrices s (matrixWorld_at c)"
    using prepare_values [OF d(1) d1(1) mw, of st] by (simp_all add: s8_def d1 m1)
  have rp8: "vectors s8 (next_vector s) = vectors s d" "next_vector s8 = next_vector s + 3"
    using d by (simp_all add: s8_def prepare_frame d1)
  have sim: "(segment_of (fst x), snd x) = y"
    unfolding x_def y_def using capsule_traversal_sim [of _ cps st bvh "(s8, False)"]
    by (simp add: seg8 box8)
  have "scratch_only s8 (fst x)" unfolding x_def by (rule capsule_traversal)
  then have fx: "next_vector (fst x) = next_vector s + 3"
      "vectors (fst x) (next_vector s) = vectors s d"
      "matrices (fst x) (matrixWorld_at c) = matrices s (matrixWorld_at c)"
    using d by (auto simp: scratch_only_def rp8 mat8)
  have "vectors (snd R) (fst (fst R))
          = position (checkCollision_result (vectors s d) (mesh_of s c) y)"
    using d result_values [of "next_vector s" x c "geometry_of c" False]
    by (simp add: R fx sim mesh_of_def)
  moreover have "snd (fst R) = collided (checkCollision_result (vectors s d) (mesh_of s c) y)"
    using sim by (auto simp: R checkCollision_result_def Let_def)
  ultimately show ?thesis by (simp add: P)
qed


lemma fold_sim_inv:
  assumes "\<And>t x. I x \<Longrightarrow> I (hf t x)" and "\<And>t x. I x \<Longrightarrow> al (hf t x) = f t (al x)" and "I x"
  shows "al (fold hf ts x) = fold f ts (al x)"
  using assms(3) by (induction ts arbitrary: x) (simp_all add: assms(1,2))

lemma simple_sim:
  assumes "4 \<le> rv" "4 \<le> lp" "lp \<noteq> rv"
  shows "(vectors (fst (h_simple_intersectsTriangle mw lp rv r tri x)) rv,
          snd (h_simple_intersectsTriangle mw lp rv r tri x))
         = simple_intersectsTriangle (matrices (fst x) mw) (vectors (fst x) lp) r tri
             (vectors (fst x) rv, snd x)"
  using assms
  by (simp add: h_simple_intersectsTriangle_def simple_intersectsTriangle_def Let_def op_defs
      addr_defs)

lemma simple_traversal_sim:
  assumes a: "4 \<le> rv" "4 \<le> lp" "lp \<noteq> rv"
  shows "(vectors (fst (shapecast ib (h_simple_intersectsTriangle mw lp rv r) bvh (s, False))) rv,
          snd (shapecast ib (h_simple_intersectsTriangle mw lp rv r) bvh (s, False)))
         = shapecast ib (simple_intersectsTriangle (matrices s mw) (vectors s lp) r) bvh
             (vectors s rv, False)"
proof -
  let ?I = "\<lambda>x. scratch_and rv s (fst x)"
  have keep: "matrices (fst x) mw = matrices s mw \<and> vectors (fst x) lp = vectors s lp"
    if "?I x" for x
    using that a by (simp add: scratch_and_def)
  have "(vectors (fst (fold (h_simple_intersectsTriangle mw lp rv r) ts (s, False))) rv,
         snd (fold (h_simple_intersectsTriangle mw lp rv r) ts (s, False)))
        = fold (simple_intersectsTriangle (matrices s mw) (vectors s lp) r) ts
            (vectors (fst (s, False)) rv, snd (s, False))" for ts
  proof (rule fold_sim_inv [where I = ?I and al = "\<lambda>x. (vectors (fst x) rv, snd x)"])
    show "?I (h_simple_intersectsTriangle mw lp rv r t x)" if "?I x" for t x
      using that by (rule simple_scratch_and)
    show "(vectors (fst (h_simple_intersectsTriangle mw lp rv r t x)) rv,
           snd (h_simple_intersectsTriangle mw lp rv r t x))
          = simple_intersectsTriangle (matrices s mw) (vectors s lp) r t (vectors (fst x) rv, snd x)"
      if "?I x" for t x
      using simple_sim [OF a, of mw r t x] keep [OF that] by simp
    show "?I (s, False)" by (simp add: scratch_and_def)
  qed
  then show ?thesis unfolding shapecast_fold by simp
qed

lemma simple_prepare_values:
  assumes "4 \<le> pos" "pos < next_vector s" "4 \<le> vel" "vel < next_vector s"
    "matrixWorld_at c \<noteq> tempMat"
  shows "vectors (snd (h_simple_prepare pos vel c r s)) (Suc (next_vector s))
           = Vector3_applyMatrix4 (Vector3_add (vectors s pos) (vectors s vel))
               (Matrix4_invert (matrices s (matrixWorld_at c)))"
    and "tempBox (snd (h_simple_prepare pos vel c r s))
           = Box3_setFromCenterAndSize
               (Vector3_applyMatrix4 (Vector3_add (vectors s pos) (vectors s vel))
                  (Matrix4_invert (matrices s (matrixWorld_at c))))
               (Vector3 (r * 2) (r * 2) (r * 2))"
    and "matrices (snd (h_simple_prepare pos vel c r s)) (matrixWorld_at c)
           = matrices s (matrixWorld_at c)"
  using assms
  by (simp_all add: h_simple_prepare_def op_defs addr_defs Let_def)

lemma h_checkSimpleCollision_refines:
  fixes pos vel c r s
  assumes p: "4 \<le> pos" "pos < next_vector s" and v: "4 \<le> vel" "vel < next_vector s"
    and mw: "matrixWorld_at c \<noteq> tempMat"
  defines "R \<equiv> h_checkSimpleCollision pos vel (Some c) r s"
  defines "P \<equiv> checkSimpleCollision (vectors s pos) (vectors s vel) (Some (mesh_of s c)) r"
  shows "vectors (snd R) (fst (fst R)) = position P \<and>
         vectors (snd R) (fst (snd (fst R))) = velocity P \<and>
         snd (snd (fst R)) = collided P"
proof (cases "boundsTree (geometry_of c)")
  case None
  then have "R = ((next_vector s, Suc (next_vector s), False),
        snd (h_clone vel (h_add (next_vector s) vel (snd (h_clone pos s)))))"
    unfolding R_def by (simp add: h_checkSimpleCollision_early)
  moreover have "P = \<lparr>position = Vector3_add (vectors s pos) (vectors s vel), collided = False,
                        velocity = vectors s vel\<rparr>"
    unfolding P_def using None by (simp add: checkSimpleCollision_def mesh_of_def)
  ultimately show ?thesis using p v by (simp add: op_defs)
next
  case (Some bvh)
  let ?rp = "next_vector s" and ?rv = "Suc (next_vector s)"
  define s2 where "s2 = snd (h_clone vel (snd (h_clone pos s)))"
  define lp where "lp = fst (h_simple_prepare pos vel c r s2)"
  define s9 where "s9 = snd (h_simple_prepare pos vel c r s2)"
  define x where "x = shapecast (\<lambda>box. Box3_intersectsBox box (tempBox s9))
                (h_simple_intersectsTriangle (matrixWorld_at c) lp ?rv r) bvh (s9, False)"
  let ?M = "matrices s (matrixWorld_at c)"
  let ?L = "Vector3_applyMatrix4 (Vector3_add (vectors s pos) (vectors s vel)) (Matrix4_invert ?M)"
  define y where "y = shapecast
                (\<lambda>box. Box3_intersectsBox box
                   (Box3_setFromCenterAndSize ?L (Vector3 (r * 2) (r * 2) (r * 2))))
                (simple_intersectsTriangle ?M ?L r) bvh (vectors s vel, False)"
  have R: "R = ((?rp, ?rv, snd x), h_add ?rp ?rv (fst x))"
    unfolding R_def x_def s9_def lp_def s2_def
    by (simp add: h_checkSimpleCollision_run [OF refl Some] Let_def)
  have P: "P = \<lparr>position = Vector3_add (vectors s pos) (fst y), collided = snd y,
                  velocity = fst y\<rparr>"
    unfolding P_def y_def using Some
    by (simp add: checkSimpleCollision_def mesh_of_def Let_def case_prod_beta)
  have s2: "next_vector s2 = Suc (Suc (next_vector s))" "vectors s2 pos = vectors s pos"
      "vectors s2 vel = vectors s vel" "matrices s2 = matrices s"
      "vectors s2 ?rp = vectors s pos" "vectors s2 ?rv = vectors s vel"
    using p v by (simp_all add: s2_def op_defs)
  have lp: "lp = Suc (Suc (Suc (next_vector s)))" by (simp add: lp_def simple_prepare_frame s2)
  have p2: "pos < next_vector s2" "vel < next_vector s2" using p v by (simp_all add: s2)
  have s9: "vectors s9 lp = ?L"
      "tempBox s9 = Box3_setFromCenterAndSize ?L (Vector3 (r * 2) (r * 2) (r * 2))"
      "matrices s9 (matrixWorld_at c) = ?M"
    using simple_prepare_values [OF p(1) p2(1) v(1) p2(2) mw, of r]
    by (simp_all add: s9_def lp s2)
  have s9': "vectors s9 ?rp = vectors s pos" "vectors s9 ?rv = vectors s vel"
    by (simp_all add: s9_def simple_prepare_frame(3) s2)
  have a: "4 \<le> ?rv" "4 \<le> lp" "lp \<noteq> ?rv" using p by (simp_all add: lp)
  have sim: "(vectors (fst x) ?rv, snd x) = y"
    unfolding x_def y_def
    using simple_traversal_sim [OF a, of _ "matrixWorld_at c" r bvh s9]
    by (simp add: s9 s9')
  have "scratch_and ?rv s9 (fst x)" unfolding x_def by (rule simple_traversal)
  then have "vectors (fst x) ?rp = vectors s9 ?rp"
    using p by (simp add: scratch_and_def)
  then have rp: "vectors (fst x) ?rp = vectors s pos" by (simp add: s9')
  from sim have fy: "fst y = vectors (fst x) ?rv" "snd y = snd x" by auto
  show ?thesis
    by (simp add: R P fy rp op_defs)
qed

text \<open>
  C9. A call of \<open>checkCollision\<close> or \<open>checkSimpleCollision\<close> leaves every \<^verbatim>\<open>Vector3\<close> that
  existed before it, the module's scratch vectors apart, with the value it had: so the
  vectors passed in (\<open>currentPosition\<close>, \<open>desiredPosition\<close>, \<open>position\<close>, \<open>velocity\<close>). It
  leaves every \<^verbatim>\<open>Matrix4\<close> but \<^verbatim>\<open>tempMat\<close> as it was, so the collider's \<^verbatim>\<open>matrixWorld\<close>; the
  geometry and BVH are only read. The position and the velocity it returns are
  objects allocated in the call: they did not exist before it, they exist after it, and
  they are distinct from each other.
\<close>

theorem C9_inputs_kept_outputs_fresh:
  "(4 \<le> a \<and> a < next_vector s \<longrightarrow>
      vectors (snd (h_checkCollision cps currentPosition desiredPosition collider st s)) a
        = vectors s a \<and>
      vectors (snd (h_checkSimpleCollision pos vel collider r s)) a = vectors s a \<and>
      fst (fst (h_checkCollision cps currentPosition desiredPosition collider st s)) \<noteq> a \<and>
      fst (fst (h_checkSimpleCollision pos vel collider r s)) \<noteq> a \<and>
      fst (snd (fst (h_checkSimpleCollision pos vel collider r s))) \<noteq> a) \<and>
   (m \<noteq> tempMat \<longrightarrow>
      matrices (snd (h_checkCollision cps currentPosition desiredPosition collider st s)) m
        = matrices s m \<and>
      matrices (snd (h_checkSimpleCollision pos vel collider r s)) m = matrices s m) \<and>
   next_vector s \<le> fst (fst (h_checkCollision cps currentPosition desiredPosition collider st s)) \<and>
   next_vector s \<le> fst (fst (h_checkSimpleCollision pos vel collider r s)) \<and>
   next_vector s \<le> fst (snd (fst (h_checkSimpleCollision pos vel collider r s))) \<and>
   fst (fst (h_checkSimpleCollision pos vel collider r s))
     \<noteq> fst (snd (fst (h_checkSimpleCollision pos vel collider r s))) \<and>
   fst (fst (h_checkCollision cps currentPosition desiredPosition collider st s))
     < next_vector (snd (h_checkCollision cps currentPosition desiredPosition collider st s)) \<and>
   fst (fst (h_checkSimpleCollision pos vel collider r s))
     < next_vector (snd (h_checkSimpleCollision pos vel collider r s)) \<and>
   fst (snd (fst (h_checkSimpleCollision pos vel collider r s)))
     < next_vector (snd (h_checkSimpleCollision pos vel collider r s))"
proof -
  have "next_vector s < Suc (next_vector s)" by simp
  also have "Suc (next_vector s) < next_vector (snd (h_checkSimpleCollision pos vel collider r s))"
    by (rule h_checkSimpleCollision_frame)
  finally have "next_vector s < next_vector (snd (h_checkSimpleCollision pos vel collider r s))" .
  then show ?thesis
    by (simp add: h_checkCollision_frame h_checkSimpleCollision_frame)
qed

theorem C9_inputs_kept_outputs_fresh_witness:
  "vectors (snd (h_checkCollision wall_cps 4 5 (Some wall_ref) kartColliderSettings
                   example_store)) 5 = Vector3 (9 / 2) 0 0 \<and>
   vectors (snd (h_checkSimpleCollision 4 5 (Some wall_ref) 1 example_store)) 5
     = Vector3 (9 / 2) 0 0 \<and>
   fst (fst (h_checkCollision wall_cps 4 5 (Some wall_ref) kartColliderSettings example_store))
     \<noteq> 5 \<and>
   fst (fst (h_checkSimpleCollision 4 5 (Some wall_ref) 1 example_store)) \<noteq> 5 \<and>
   fst (snd (fst (h_checkSimpleCollision 4 5 (Some wall_ref) 1 example_store))) \<noteq> 5 \<and>
   matrices (snd (h_checkCollision wall_cps 4 5 (Some wall_ref) kartColliderSettings
                    example_store)) 1 = Matrix4_identity \<and>
   matrices (snd (h_checkSimpleCollision 4 5 (Some wall_ref) 1 example_store)) 1
     = Matrix4_identity"
proof -
  have a: "4 \<le> (5::nat) \<and> 5 < next_vector example_store"
    by (simp add: example_store_def)
  have m: "(1::nat) \<noteq> tempMat" by (simp add: tempMat_def)
  have v: "vectors example_store 5 = Vector3 (9 / 2) 0 0"
      "matrices example_store (Suc 0) = Matrix4_identity"
    by (simp_all add: example_store_def)
  note th = C9_inputs_kept_outputs_fresh [where a = 5 and m = 1 and s = example_store
      and cps = wall_cps and currentPosition = 4 and desiredPosition = 5
      and collider = "Some wall_ref" and st = kartColliderSettings and pos = 4 and vel = 5
      and r = 1]
  from th [THEN conjunct1, THEN mp, OF a] th [THEN conjunct2, THEN conjunct1, THEN mp, OF m]
  show ?thesis by (simp add: v)
qed

end
